theory Spec2Isabelle
  imports Main "HOL-Library.Word"
begin

unbundle bit_operations_syntax

section \<open>The LoRa gas sensor node (lora\_gaz.ino)\<close>

text \<open>
  The sketch targets an ATmega328 (it includes the avr/sleep.h, avr/power.h and avr/wdt.h
  headers), so a C \<open>int\<close> is a 16-bit two's complement value, a \<open>char\<close> and a
  \<open>uint8_t\<close> are 8 bits and an \<open>unsigned long\<close> is 32 bits. Right shift of a signed
  \<open>int\<close> is arithmetic (\<open>signed_drop_bit\<close>), comparison of two \<open>int\<close>s is signed.
\<close>

type_synonym int16 = "16 word"
type_synonym byte_t = "8 word"
type_synonym ulong = "32 word"

subsection \<open>Constants of the sketch\<close>

definition gas_sensor_pin :: nat where "gas_sensor_pin = 0"
definition temp_sensor_pin :: nat where "temp_sensor_pin = 1"
definition DEFAULT_PORT :: int16 where "DEFAULT_PORT = 1"
definition TX_PIN :: nat where "TX_PIN = 2"
definition RX_PIN :: nat where "RX_PIN = 3"
definition RST_PIN :: nat where "RST_PIN = 4"
definition HEAT_PIN :: nat where "HEAT_PIN = 5"

definition devAddr :: string where "devAddr = ''2601124F''"
definition nwkSKey :: string where "nwkSKey = ''D727E89EA217AA295B32628E666E5249''"
definition appSKey :: string where "appSKey = ''2E1CE56CADD7F8F3D69663ACC7AEA22E''"

text \<open>Bit positions of the ATmega328 registers the sketch names (from avr/io.h).\<close>

definition WDRF :: nat where "WDRF = 3"
definition WDP0 :: nat where "WDP0 = 0"
definition WDE :: nat where "WDE = 3"
definition WDCE :: nat where "WDCE = 4"
definition WDP3 :: nat where "WDP3 = 5"
definition WDIE :: nat where "WDIE = 6"

subsection \<open>Calls into the Arduino core and the libraries, as events\<close>

text \<open>
  Everything the sketch does to the outside is a call into the Arduino core, MsTimer2,
  SoftwareSerial, avr-libc or the TheThingsNetwork library. Each such call is recorded, in
  program order, in the \<open>trace\<close> of the machine state. \<open>Serial_print_DEC\<close> stands for
  \<open>debugSerial.print(v, DEC)\<close>, whose decimal rendering belongs to the Arduino core.
\<close>

datatype level = LOW | HIGH
datatype pin_dir = INPUT | OUTPUT
datatype aref = DEFAULT | INTERNAL | EXTERNAL
datatype sleep_kind = SLEEP_MODE_PWR_DOWN

datatype event =
    PinMode nat pin_dir
  | DigitalWrite nat level
  | Delay ulong
  | Serial_begin nat
  | Serial_print string
  | Serial_print_DEC int16
  | Serial_println string
  | LoraSerial_begin nat
  | MsTimer2_set nat
  | MsTimer2_start
  | MsTimer2_stop
  | TTN_showStatus
  | TTN_personalize string string string
  | TTN_sendBytes "byte_t list" int16 int16
  | AnalogReference aref
  | AnalogRead nat
  | Cli
  | Sei
  | Write_MCUSR byte_t
  | Write_WDTCSR byte_t
  | Set_sleep_mode sleep_kind
  | Sleep_enable
  | Sleep_mode
  | Sleep_disable
  | Power_all_enable

subsection \<open>Machine state and environment\<close>

text \<open>
  The globals \<open>f_wdt\<close> and \<open>wdt_cpt\<close>, the two watchdog registers the sketch writes,
  whether the MsTimer2 timeout is running, and the trace of calls made so far.
\<close>

record mcu =
  f_wdt :: int16
  wdt_cpt :: int16
  MCUSR :: byte_t
  WDTCSR :: byte_t
  timer2_running :: bool
  trace :: "event list"

text \<open>
  What the sketch does not decide: the sample the converter returns and the status the
  radio library returns (both may depend on everything done so far), whether the status
  query of the bring-up outlasts the 15000 ms of the MsTimer2 timeout, and the order in
  which the compiler evaluates the two arguments \<open>getGasValue()\<close> and
  \<open>getTempValue()\<close> of the call in \<open>loop\<close> (C++ leaves it unspecified).
\<close>

record env =
  analogRead_val :: "event list \<Rightarrow> int16"
  sendBytes_ret :: "event list \<Rightarrow> int16"
  showStatus_timeout :: bool
  eval_right_to_left :: bool

definition emit :: "event \<Rightarrow> mcu \<Rightarrow> mcu" where
  "emit e s = s\<lparr>trace := trace s @ [e]\<rparr>"

definition delay :: "ulong \<Rightarrow> mcu \<Rightarrow> mcu" where
  "delay ms s = emit (Delay ms) s"

subsection \<open>LoRa functions\<close>

definition resetRN2483 :: "mcu \<Rightarrow> mcu" where
  "resetRN2483 s =
     (let s = emit (PinMode RST_PIN OUTPUT) s;
          s = emit (DigitalWrite RST_PIN LOW) s;
          s = delay 100 s;
          s = emit (DigitalWrite RST_PIN HIGH) s
      in delay 100 s)"

definition MsTimer2start :: "mcu \<Rightarrow> mcu" where
  "MsTimer2start s = emit MsTimer2_start (s\<lparr>timer2_running := True\<rparr>)"

definition MsTimer2stop :: "mcu \<Rightarrow> mcu" where
  "MsTimer2stop s = emit MsTimer2_stop (s\<lparr>timer2_running := False\<rparr>)"

definition timeoutHandler :: "mcu \<Rightarrow> mcu" where
  "timeoutHandler s =
     (let s = emit (Serial_println (''Timeout !'' @ [CHR 0x0A])) s
      in MsTimer2stop s)"

text \<open>
  \<open>ttn.showStatus()\<close> is a blocking query of the radio. When the MsTimer2 timeout is
  running and the query outlasts it, the timer interrupt runs \<open>timeoutHandler\<close>
  (registered in \<open>setup\<close>) and returns into the query.
\<close>

definition ttn_showStatus :: "env \<Rightarrow> mcu \<Rightarrow> mcu" where
  "ttn_showStatus en s =
     (let s = emit TTN_showStatus s
      in if timer2_running s \<and> showStatus_timeout en then timeoutHandler s else s)"

definition loraInit :: "env \<Rightarrow> mcu \<Rightarrow> mcu" where
  "loraInit en s =
     (let s = resetRN2483 s;
          s = emit (LoraSerial_begin 57600) s;
          s = MsTimer2start s;
          s = ttn_showStatus en s
      in MsTimer2stop s)"

definition loraJoin :: "mcu \<Rightarrow> mcu" where
  "loraJoin s = emit (TTN_personalize devAddr nwkSKey appSKey) s"

text \<open>
  \<open>ttn.sendBytes(data, length, port)\<close>: the call is recorded with the bytes of the
  array, the length and the port as the sketch passes them; the status is the library's.
\<close>

definition ttn_sendBytes :: "env \<Rightarrow> byte_t list \<Rightarrow> int16 \<Rightarrow> int16 \<Rightarrow> mcu \<Rightarrow> int16 \<times> mcu" where
  "ttn_sendBytes en data len port s =
     (let s = emit (TTN_sendBytes data len port) s
      in (sendBytes_ret en (trace s), s))"

definition loraSendBytes :: "env \<Rightarrow> byte_t list \<Rightarrow> int16 \<Rightarrow> int16 \<Rightarrow> mcu \<Rightarrow> int16 \<times> mcu" where
  "loraSendBytes en data len port s = ttn_sendBytes en data len port s"

definition loraSendByte :: "env \<Rightarrow> byte_t list \<Rightarrow> int16 \<Rightarrow> mcu \<Rightarrow> int16 \<times> mcu" where
  "loraSendByte en data port s = ttn_sendBytes en data 1 port s"

text \<open>
  \<open>char data[4] = {gas >> 8, gas & 0xFF, temp >> 8, temp & 0xFF}\<close>: each initialiser is
  an \<open>int\<close>, narrowed to the 8 bits of a \<open>char\<close> (\<open>ucast\<close> keeps the low 8 bits).
\<close>

definition loraSendValues :: "env \<Rightarrow> int16 \<Rightarrow> int16 \<Rightarrow> int16 \<Rightarrow> mcu \<Rightarrow> int16 \<times> mcu" where
  "loraSendValues en gas temp port s =
     (let data = [ucast (signed_drop_bit 8 gas) :: byte_t, ucast (gas AND 0xFF),
                  ucast (signed_drop_bit 8 temp), ucast (temp AND 0xFF)]
      in ttn_sendBytes en data 4 port s)"

subsection \<open>Timer and sleep mode functions\<close>

definition setupWatchdog :: "mcu \<Rightarrow> mcu" where
  "setupWatchdog s =
     (let s = emit Cli s;
          v = MCUSR s AND NOT (push_bit WDRF 1);
          s = emit (Write_MCUSR v) (s\<lparr>MCUSR := v\<rparr>);
          v = WDTCSR s OR (push_bit WDCE 1 OR push_bit WDE 1);
          s = emit (Write_WDTCSR v) (s\<lparr>WDTCSR := v\<rparr>);
          v = push_bit WDP0 1 OR push_bit WDP3 1;
          s = emit (Write_WDTCSR v) (s\<lparr>WDTCSR := v\<rparr>);
          v = WDTCSR s OR push_bit WDIE 1;
          s = emit (Write_WDTCSR v) (s\<lparr>WDTCSR := v\<rparr>)
      in emit Sei s)"

text \<open>The watchdog interrupt routine \<open>ISR(WDT_vect)\<close>.\<close>

definition ISR_WDT_vect :: "mcu \<Rightarrow> mcu" where
  "ISR_WDT_vect s = s\<lparr>wdt_cpt := wdt_cpt s + 1\<rparr>"

text \<open>
  \<open>sleep_mode()\<close> halts the processor in power-down mode; the watchdog interrupt, armed by
  \<open>setupWatchdog\<close> with a period of 8 seconds, wakes it. \<open>sleep_8s\<close>,
  \<open>sleep_body\<close>, \<open>sleep_while\<close> and \<open>goToSleep\<close> below are the sleep request when
  the ticks arrive regularly: the watchdog routine runs once in each halt and not while
  the processor is awake (``Turn Atemga328 into sleep mode for 8 seconds''). They are what
  \<open>loop\<close> uses. The routine is asynchronous in the sketch; the sleep request under any
  arrival of ticks follows further down (\<open>goToSleep_irq\<close>), and the claims about
  \<open>goToSleep\<close> itself are settled there.
\<close>

definition sleep_8s :: "mcu \<Rightarrow> mcu" where
  "sleep_8s s =
     (let s = emit (Set_sleep_mode SLEEP_MODE_PWR_DOWN) s;
          s = emit Sleep_enable s;
          s = emit Sleep_mode s;
          s = ISR_WDT_vect s;
          s = emit Sleep_disable s
      in emit Power_all_enable s)"

text \<open>The body of the \<open>while\<close> loop of \<open>goToSleep\<close>, and the loop.\<close>

definition sleep_body :: "mcu \<Rightarrow> mcu" where
  "sleep_body s =
     (let s = emit (Serial_print ''* '') s;
          s = delay 100 s;
          s = sleep_8s s
      in delay 100 s)"

function sleep_while :: "int16 \<Rightarrow> mcu \<Rightarrow> mcu" where
  "sleep_while sec s = (if wdt_cpt s <s sec then sleep_while sec (sleep_body s) else s)"
  by pat_completeness auto

termination sleep_while
proof (relation "measure (\<lambda>(sec, s). nat (sint sec - sint (wdt_cpt s)))")
  show "wf (measure (\<lambda>(sec, s). nat (sint sec - sint (wdt_cpt s))))"
    by simp
next
  fix sec :: int16 and s :: mcu
  assume run: "wdt_cpt s <s sec"
  have tick: "wdt_cpt (sleep_body s) = wdt_cpt s + 1"
    by (simp add: sleep_body_def sleep_8s_def ISR_WDT_vect_def delay_def emit_def Let_def)
  have below: "sint (wdt_cpt s) < sint sec"
    using run by (simp add: word_sless_alt)
  have "sint sec \<le> 32767"
    using sint_lt [of sec] by simp
  with below have hi: "sint (wdt_cpt s) < 32767"
    by simp
  have lo: "- 32768 \<le> sint (wdt_cpt s)"
    using sint_ge [of "wdt_cpt s"] by simp
  have "sint (wdt_cpt s + 1) = sint (wdt_cpt s) + 1"
    using hi lo by (simp add: sint_word_ariths signed_take_bit_int_eq_self)
  with below tick
  show "((sec, sleep_body s), (sec, s)) \<in> measure (\<lambda>(sec, s). nat (sint sec - sint (wdt_cpt s)))"
    by simp
qed

declare sleep_while.simps [simp del]

text \<open>
  \<open>goToSleep\<close> in three parts: everything before the \<open>while\<close> (lines 173 to 178 of the
  sketch), the loop, and everything after it (lines 185 and 186).
\<close>

definition goToSleep_enter :: "int16 \<Rightarrow> mcu \<Rightarrow> mcu" where
  "goToSleep_enter sec0 s =
     (let sec = signed_drop_bit 3 sec0;
          s = s\<lparr>wdt_cpt := 0\<rparr>;
          real_period = 8 * sec;
          s = emit (Serial_print ''Sleep ('') s;
          s = emit (Serial_print_DEC real_period) s
      in emit (Serial_print ''s) '') s)"

definition goToSleep_exit :: "mcu \<Rightarrow> mcu" where
  "goToSleep_exit s =
     (let s = s\<lparr>wdt_cpt := 0\<rparr>
      in emit (Serial_println ''Wake up !'') s)"

definition goToSleep :: "int16 \<Rightarrow> mcu \<Rightarrow> mcu" where
  "goToSleep sec0 s =
     (let sec = signed_drop_bit 3 sec0;
          s = goToSleep_enter sec0 s;
          s = sleep_while sec s
      in goToSleep_exit s)"

subsection \<open>The sleep request with the watchdog interrupt arriving at any time\<close>

text \<open>
  \<open>ISR(WDT_vect)\<close> is asynchronous: the watchdog runs freely once \<open>setupWatchdog\<close>
  has armed it, and \<open>goToSleep\<close> never disables interrupts, so the routine can run
  during any call \<open>goToSleep\<close> makes, awake or halted. A schedule \<open>tk\<close> says how often:
  \<open>tk tr\<close> is the number of runs of the routine while the call recorded last in the
  trace \<open>tr\<close> is in progress. \<open>call_irq\<close> makes a call and then lets the routine run
  that many times. The main line reads \<open>wdt_cpt\<close> only in the test of the \<open>while\<close>
  loop, so where inside a call the routine runs makes no difference. Nothing bounds the
  number of passes when no tick arrives, so the loop is a partial function: \<open>None\<close> is
  a sleep request that never returns.

  Below, \<open>sleep_8s_irq\<close>, \<open>sleep_body_irq\<close>, \<open>sleep_while_irq\<close> and
  \<open>goToSleep_irq\<close> are lines 158 to 187 of the sketch under an arbitrary schedule;
  \<open>goToSleep_enter_irq\<close> is lines 173 to 178 and \<open>goToSleep_exit_irq\<close> lines 185 and
  186. The functions \<open>sleep_8s\<close> to \<open>goToSleep\<close> above are these at the schedule
  \<open>one_tick_per_halt\<close> (lemma \<open>goToSleep_irq_regular\<close>). Outside \<open>goToSleep\<close>
  the counter is written by the routine only and read by nothing before line 174 sets it
  to zero (lemma \<open>goToSleep_irq_reset\<close>), so the runs of the routine there are left
  out.
\<close>

type_synonym ticks = "event list \<Rightarrow> nat"

definition call_irq :: "ticks \<Rightarrow> event \<Rightarrow> mcu \<Rightarrow> mcu" where
  "call_irq tk e s = (let s = emit e s in ((ISR_WDT_vect ^^ tk (trace s)) s))"

definition sleep_8s_irq :: "ticks \<Rightarrow> mcu \<Rightarrow> mcu" where
  "sleep_8s_irq tk s =
     (let s = call_irq tk (Set_sleep_mode SLEEP_MODE_PWR_DOWN) s;
          s = call_irq tk Sleep_enable s;
          s = call_irq tk Sleep_mode s;
          s = call_irq tk Sleep_disable s
      in call_irq tk Power_all_enable s)"

definition sleep_body_irq :: "ticks \<Rightarrow> mcu \<Rightarrow> mcu" where
  "sleep_body_irq tk s =
     (let s = call_irq tk (Serial_print ''* '') s;
          s = call_irq tk (Delay 100) s;
          s = sleep_8s_irq tk s
      in call_irq tk (Delay 100) s)"

partial_function (option) sleep_while_irq :: "ticks \<Rightarrow> int16 \<Rightarrow> mcu \<Rightarrow> mcu option" where
  [code]: "sleep_while_irq tk sec s =
     (if wdt_cpt s <s sec then sleep_while_irq tk sec (sleep_body_irq tk s) else Some s)"

definition goToSleep_enter_irq :: "ticks \<Rightarrow> int16 \<Rightarrow> mcu \<Rightarrow> mcu" where
  "goToSleep_enter_irq tk sec0 s =
     (let sec = signed_drop_bit 3 sec0;
          s = s\<lparr>wdt_cpt := 0\<rparr>;
          real_period = 8 * sec;
          s = call_irq tk (Serial_print ''Sleep ('') s;
          s = call_irq tk (Serial_print_DEC real_period) s
      in call_irq tk (Serial_print ''s) '') s)"

definition goToSleep_exit_irq :: "ticks \<Rightarrow> mcu \<Rightarrow> mcu" where
  "goToSleep_exit_irq tk s =
     (let s = s\<lparr>wdt_cpt := 0\<rparr>
      in call_irq tk (Serial_println ''Wake up !'') s)"

definition goToSleep_irq :: "ticks \<Rightarrow> int16 \<Rightarrow> mcu \<Rightarrow> mcu option" where
  "goToSleep_irq tk sec0 s =
     (let sec = signed_drop_bit 3 sec0;
          s = goToSleep_enter_irq tk sec0 s
      in case sleep_while_irq tk sec s of
           None \<Rightarrow> None
         | Some s \<Rightarrow> Some (goToSleep_exit_irq tk s))"

text \<open>
  Schedules: \<open>one_tick_per_halt\<close> lets the routine run once in every halt
  (\<open>sleep_mode()\<close>) and never while the processor is awake; \<open>tick_at n\<close> adds one run
  during the call that makes the trace \<open>n\<close> calls long (from power-on, the \<open>n\<close>-th
  call). \<open>ticks_during tk tr es\<close> counts the runs while the calls
  \<open>es\<close> are made after the trace \<open>tr\<close>, and \<open>announce_events D\<close> are the three
  prints of lines 176 to 178.
\<close>

definition one_tick_per_halt :: ticks where
  "one_tick_per_halt tr = (if tr \<noteq> [] \<and> last tr = Sleep_mode then 1 else 0)"

definition tick_at :: "nat \<Rightarrow> ticks" where
  "tick_at n tr = (if length tr = n then 1 else one_tick_per_halt tr)"

fun ticks_during :: "ticks \<Rightarrow> event list \<Rightarrow> event list \<Rightarrow> nat" where
  "ticks_during tk tr [] = 0"
| "ticks_during tk tr (e # es) = tk (tr @ [e]) + ticks_during tk (tr @ [e]) es"

definition announce_events :: "int16 \<Rightarrow> event list" where
  "announce_events D =
     [Serial_print ''Sleep ('', Serial_print_DEC (8 * signed_drop_bit 3 D), Serial_print ''s) '']"

subsection \<open>Sensor and actuator functions\<close>

definition analogRead :: "env \<Rightarrow> nat \<Rightarrow> mcu \<Rightarrow> int16 \<times> mcu" where
  "analogRead en pin s =
     (let s = emit (AnalogRead pin) s
      in (analogRead_val en (trace s), s))"

definition getGasValue :: "env \<Rightarrow> mcu \<Rightarrow> int16 \<times> mcu" where
  "getGasValue en s =
     (let s = emit (AnalogReference INTERNAL) s;
          (val, s) = analogRead en gas_sensor_pin s;
          s = emit (Serial_print ''Gas value = '') s;
          s = emit (Serial_print_DEC val) s;
          s = emit (Serial_println ''/1023'') s
      in (val, s))"

definition getTempValue :: "env \<Rightarrow> mcu \<Rightarrow> int16 \<times> mcu" where
  "getTempValue en s =
     (let s = emit (AnalogReference DEFAULT) s;
          (val, s) = analogRead en temp_sensor_pin s;
          s = emit (Serial_print ''Temperature value = '') s;
          s = emit (Serial_print_DEC val) s;
          s = emit (Serial_println ''/1023'') s
      in (val, s))"

text \<open>
  \<open>delay(1000*sec)\<close>: the product is computed in \<open>int\<close> and converted to the
  \<open>unsigned long\<close> parameter of \<open>delay\<close> (\<open>scast\<close> extends the sign).
\<close>

definition heat :: "int16 \<Rightarrow> mcu \<Rightarrow> mcu" where
  "heat sec s =
     (let s = emit (DigitalWrite HEAT_PIN HIGH) s;
          s = delay (scast (1000 * sec)) s
      in emit (DigitalWrite HEAT_PIN LOW) s)"

subsection \<open>The two entry points\<close>

text \<open>
  \<open>setup()\<close> of the sketch (the bare name is a keyword of Isabelle, hence
  \<open>setup_fn\<close>).
\<close>

definition setup_fn :: "env \<Rightarrow> mcu \<Rightarrow> mcu" where
  "setup_fn en s =
     (let s = emit (Serial_begin 9600) s;
          s = emit (PinMode HEAT_PIN OUTPUT) s;
          s = emit (MsTimer2_set 15000) s;
          s = s\<lparr>f_wdt := 0\<rparr>;
          s = setupWatchdog s;
          s = loraInit en s
      in loraJoin s)"

text \<open>
  The two sensor reads are the arguments of one call, so the compiler chooses which runs
  first; each result goes to its own parameter either way.
\<close>

definition read_sensors :: "env \<Rightarrow> mcu \<Rightarrow> (int16 \<times> int16) \<times> mcu" where
  "read_sensors en s =
     (if eval_right_to_left en
      then (let (temp, s) = getTempValue en s;
                (gas, s) = getGasValue en s
            in ((gas, temp), s))
      else (let (gas, s) = getGasValue en s;
                (temp, s) = getTempValue en s
            in ((gas, temp), s)))"

definition loop :: "env \<Rightarrow> mcu \<Rightarrow> mcu" where
  "loop en s =
     (let s = delay 100 s;
          s = heat 5 s;
          ((gas, temp), s) = read_sensors en s;
          (status, s) = loraSendValues en gas temp 1 s
      in goToSleep 120 s)"

text \<open>
  The Arduino core's \<open>main\<close> calls \<open>setup()\<close> once and then \<open>loop()\<close> again and
  again; \<open>run en n s\<close> is the state after \<open>setup\<close> and \<open>n\<close> passes of \<open>loop\<close>.
\<close>

definition cycles :: "env \<Rightarrow> nat \<Rightarrow> mcu \<Rightarrow> mcu" where
  "cycles en n s = ((loop en) ^^ n) s"

definition run :: "env \<Rightarrow> nat \<Rightarrow> mcu \<Rightarrow> mcu" where
  "run en n s = cycles en n (setup_fn en s)"

text \<open>The globals as the sketch initialises them, nothing done yet.\<close>

definition power_on :: "byte_t \<Rightarrow> byte_t \<Rightarrow> mcu" where
  "power_on mcusr wdtcsr =
     \<lparr>f_wdt = 0, wdt_cpt = 0, MCUSR = mcusr, WDTCSR = wdtcsr,
      timer2_running = False, trace = []\<rparr>"

subsection \<open>What one sleep request prints and does\<close>

text \<open>
  The calls of one pass of the \<open>while\<close> loop of \<open>goToSleep\<close>, the number of halts
  (\<open>sleep_mode()\<close> calls) in a trace, and the calls of a whole \<open>goToSleep(D)\<close>:
  the announcement with the real period, one pass per tick, the wake-up line.
\<close>

definition sleep_body_events :: "event list" where
  "sleep_body_events =
     [Serial_print ''* '', Delay 100, Set_sleep_mode SLEEP_MODE_PWR_DOWN, Sleep_enable,
      Sleep_mode, Sleep_disable, Power_all_enable, Delay 100]"

definition halts :: "event list \<Rightarrow> nat" where
  "halts tr = count_list tr Sleep_mode"

definition goToSleep_events :: "int16 \<Rightarrow> event list" where
  "goToSleep_events D =
     [Serial_print ''Sleep ('', Serial_print_DEC (8 * signed_drop_bit 3 D), Serial_print ''s) '']
     @ concat (replicate (nat (sint D div 8)) sleep_body_events)
     @ [Serial_println ''Wake up !'']"

subsection \<open>The payload as the specification words it\<close>

text \<open>
  Section 3 of the specification: the payload is exactly 4 bytes, the big-endian high and
  low byte of the gas reading, then of the temperature reading, each reading packed into
  16 bits (high byte = value >> 8, low byte = value & 0xFF). Written here with division
  and remainder on the unsigned 16-bit value, to be compared with what
  \<open>loraSendValues\<close> computes.
\<close>

definition payload_spec :: "int16 \<Rightarrow> int16 \<Rightarrow> byte_t list" where
  "payload_spec gas temp =
     [word_of_int (uint gas div 256), word_of_int (uint gas mod 256),
      word_of_int (uint temp div 256), word_of_int (uint temp mod 256)]"

subsection \<open>A test bench\<close>

text \<open>
  A concrete environment for the closed instances below: the converter answers 300 on the
  gas pin and 900 on the temperature pin, every transmission is reported successful.
\<close>

definition bench_env :: "bool \<Rightarrow> bool \<Rightarrow> env" where
  "bench_env timeout rtl =
     \<lparr>analogRead_val = (\<lambda>tr. if last tr = AnalogRead gas_sensor_pin then 300 else 900),
      sendBytes_ret = (\<lambda>tr. 1),
      showStatus_timeout = timeout,
      eval_right_to_left = rtl\<rparr>"

subsection \<open>What the sensor reads, the bring-up and one cycle do\<close>

text \<open>
  Names for the calls each part of the sketch makes, used to state the properties: the
  analog samples in a trace; the calls of \<open>getGasValue\<close> and \<open>getTempValue\<close> for a
  sample \<open>v\<close>, and the sample the converter gives after a trace \<open>tr\<close>; the calls of
  \<open>loraInit\<close>, with the two calls of \<open>timeoutHandler\<close> when the timeout fires.
\<close>

fun is_sample :: "event \<Rightarrow> bool" where
  "is_sample (AnalogRead pin) = True"
| "is_sample e = False"

definition samples :: "event list \<Rightarrow> event list" where
  "samples tr = filter is_sample tr"

definition gas_events :: "int16 \<Rightarrow> event list" where
  "gas_events v =
     [AnalogReference INTERNAL, AnalogRead gas_sensor_pin,
      Serial_print ''Gas value = '', Serial_print_DEC v, Serial_println ''/1023'']"

definition temp_events :: "int16 \<Rightarrow> event list" where
  "temp_events v =
     [AnalogReference DEFAULT, AnalogRead temp_sensor_pin,
      Serial_print ''Temperature value = '', Serial_print_DEC v, Serial_println ''/1023'']"

definition gas_sample :: "env \<Rightarrow> event list \<Rightarrow> int16" where
  "gas_sample en tr = analogRead_val en (tr @ [AnalogReference INTERNAL, AnalogRead gas_sensor_pin])"

definition temp_sample :: "env \<Rightarrow> event list \<Rightarrow> int16" where
  "temp_sample en tr = analogRead_val en (tr @ [AnalogReference DEFAULT, AnalogRead temp_sensor_pin])"

definition loraInit_events :: "bool \<Rightarrow> event list" where
  "loraInit_events timeout =
     [PinMode RST_PIN OUTPUT, DigitalWrite RST_PIN LOW, Delay 100, DigitalWrite RST_PIN HIGH,
      Delay 100, LoraSerial_begin 57600, MsTimer2_start, TTN_showStatus]
     @ (if timeout then [Serial_println (''Timeout !'' @ [CHR 0x0A]), MsTimer2_stop] else [])
     @ [MsTimer2_stop]"

text \<open>
  \<open>loop_transmit\<close> is \<open>loop\<close> up to and including the call of
  \<open>loraSendValues\<close> (lines 241 to 243), with the status that call returns.
  \<open>cycle_readings en tr\<close> are the two readings of a pass of \<open>loop\<close> that starts
  after the trace \<open>tr\<close>, \<open>cycle_events en tr\<close> the calls of that pass, and
  \<open>cycles_events en tr n\<close> those of \<open>n\<close> passes. \<open>setup_events\<close> are the calls of
  \<open>setup\<close> from given contents of MCUSR and WDTCSR.
\<close>

definition loop_transmit :: "env \<Rightarrow> mcu \<Rightarrow> int16 \<times> mcu" where
  "loop_transmit en s =
     (let s = delay 100 s;
          s = heat 5 s;
          ((gas, temp), s) = read_sensors en s
      in loraSendValues en gas temp 1 s)"

definition heat_events :: "event list" where
  "heat_events = [DigitalWrite HEAT_PIN HIGH, Delay 5000, DigitalWrite HEAT_PIN LOW]"

definition cycle_readings :: "env \<Rightarrow> event list \<Rightarrow> int16 \<times> int16" where
  "cycle_readings en tr =
     (let tr = tr @ [Delay 100] @ heat_events
      in if eval_right_to_left en
         then (let t = temp_sample en tr; g = gas_sample en (tr @ temp_events t) in (g, t))
         else (let g = gas_sample en tr; t = temp_sample en (tr @ gas_events g) in (g, t)))"

definition sampling_events :: "env \<Rightarrow> int16 \<Rightarrow> int16 \<Rightarrow> event list" where
  "sampling_events en g t =
     (if eval_right_to_left en then temp_events t @ gas_events g
      else gas_events g @ temp_events t)"

definition cycle_events :: "env \<Rightarrow> event list \<Rightarrow> event list" where
  "cycle_events en tr =
     (let (g, t) = cycle_readings en tr
      in [Delay 100] @ heat_events @ sampling_events en g t
         @ [TTN_sendBytes (payload_spec g t) 4 1] @ goToSleep_events 120)"

definition setup_events :: "bool \<Rightarrow> byte_t \<Rightarrow> byte_t \<Rightarrow> event list" where
  "setup_events timeout mcusr wdtcsr =
     [Serial_begin 9600, PinMode HEAT_PIN OUTPUT, MsTimer2_set 15000,
      Cli, Write_MCUSR (mcusr AND NOT 8), Write_WDTCSR (wdtcsr OR 24), Write_WDTCSR 33,
      Write_WDTCSR 97, Sei]
     @ loraInit_events timeout
     @ [TTN_personalize devAddr nwkSKey appSKey]"

text \<open>
  The calls only the start-up makes (pin directions, serial and timer set-up, the reset
  line of the radio, the status query, the watchdog registers, the join), and the
  transmissions.
\<close>

fun is_startup :: "event \<Rightarrow> bool" where
  "is_startup (PinMode pin d) = True"
| "is_startup (DigitalWrite pin l) = (pin = RST_PIN)"
| "is_startup (Serial_begin b) = True"
| "is_startup (LoraSerial_begin b) = True"
| "is_startup (MsTimer2_set ms) = True"
| "is_startup MsTimer2_start = True"
| "is_startup MsTimer2_stop = True"
| "is_startup TTN_showStatus = True"
| "is_startup (TTN_personalize a n k) = True"
| "is_startup Cli = True"
| "is_startup Sei = True"
| "is_startup (Write_MCUSR v) = True"
| "is_startup (Write_WDTCSR v) = True"
| "is_startup e = False"

fun is_transmission :: "event \<Rightarrow> bool" where
  "is_transmission (TTN_sendBytes data len port) = True"
| "is_transmission e = False"

fun cycles_events :: "env \<Rightarrow> event list \<Rightarrow> nat \<Rightarrow> event list" where
  "cycles_events en tr 0 = []"
| "cycles_events en tr (Suc n) =
     (let done = cycles_events en tr n in done @ cycle_events en (tr @ done))"

section \<open>Properties\<close>

subsection \<open>The sleep loop\<close>

lemma sleep_body_eq:
  "sleep_body s = s\<lparr>wdt_cpt := wdt_cpt s + 1, trace := trace s @ sleep_body_events\<rparr>"
  by (simp add: sleep_body_def sleep_8s_def ISR_WDT_vect_def delay_def emit_def
      sleep_body_events_def Let_def)

lemma sint_succ_below:
  fixes x y :: int16
  assumes "sint x < sint y"
  shows "sint (x + 1) = sint x + 1"
proof -
  have "sint y \<le> 32767"
    using sint_lt [of y] by simp
  with assms have hi: "sint x < 32767"
    by simp
  have lo: "- 32768 \<le> sint x"
    using sint_ge [of x] by simp
  from hi lo show ?thesis
    by (simp add: sint_word_ariths signed_take_bit_int_eq_self)
qed

lemma sleep_while_done:
  "\<not> wdt_cpt s <s sec \<Longrightarrow> sleep_while sec s = s"
  by (subst sleep_while.simps) simp

lemma sleep_while_count:
  "sint sec - sint (wdt_cpt s) = int n \<Longrightarrow>
   sleep_while sec s =
     s\<lparr>wdt_cpt := sec, trace := trace s @ concat (replicate n sleep_body_events)\<rparr>"
proof (induction n arbitrary: s)
  case 0
  then have "sint (wdt_cpt s) = sint sec"
    by simp
  then have eq: "wdt_cpt s = sec"
    by (rule signed_word_eqI)
  then have "\<not> wdt_cpt s <s sec"
    by (simp add: word_sless_alt)
  then have "sleep_while sec s = s"
    by (rule sleep_while_done)
  with eq show ?case
    by simp
next
  case (Suc n)
  from Suc.prems have less: "sint (wdt_cpt s) < sint sec"
    by simp
  then have step: "sint (wdt_cpt s + 1) = sint (wdt_cpt s) + 1"
    by (rule sint_succ_below)
  have "sint sec - sint (wdt_cpt (sleep_body s)) = int n"
    using Suc.prems step by (simp add: sleep_body_eq)
  then have ih: "sleep_while sec (sleep_body s) =
      (sleep_body s)\<lparr>wdt_cpt := sec,
        trace := trace (sleep_body s) @ concat (replicate n sleep_body_events)\<rparr>"
    by (rule Suc.IH)
  have "wdt_cpt s <s sec"
    using less by (simp add: word_sless_alt)
  then have "sleep_while sec s = sleep_while sec (sleep_body s)"
    by (subst sleep_while.simps) simp
  also note ih
  also have "(sleep_body s)\<lparr>wdt_cpt := sec,
        trace := trace (sleep_body s) @ concat (replicate n sleep_body_events)\<rparr> =
      s\<lparr>wdt_cpt := sec, trace := trace s @ concat (replicate (Suc n) sleep_body_events)\<rparr>"
    by (simp add: sleep_body_eq)
  finally show ?case .
qed

lemma sleep_while_from_zero:
  assumes "wdt_cpt s = 0"
  shows "sleep_while sec s =
     s\<lparr>wdt_cpt := (if 0 <s sec then sec else 0),
       trace := trace s @ concat (replicate (nat (sint sec)) sleep_body_events)\<rparr>"
proof (cases "0 <s sec")
  case True
  then have "sint sec - sint (wdt_cpt s) = int (nat (sint sec))"
    using assms by (simp add: word_sless_alt)
  then have "sleep_while sec s =
      s\<lparr>wdt_cpt := sec, trace := trace s @ concat (replicate (nat (sint sec)) sleep_body_events)\<rparr>"
    by (rule sleep_while_count)
  then show ?thesis
    using True by simp
next
  case False
  then have "nat (sint sec) = 0"
    by (simp add: word_sless_alt)
  moreover have "sleep_while sec s = s"
    using False assms by (simp add: sleep_while_done)
  ultimately show ?thesis
    using False assms by simp
qed

lemma sint_shift3: "sint (signed_drop_bit 3 (D :: int16)) = sint D div 8"
  by (simp add: sint_signed_drop_bit_eq drop_bit_eq_div)

lemma goToSleep_eq:
  "goToSleep D s = s\<lparr>wdt_cpt := 0, trace := trace s @ goToSleep_events D\<rparr>"
proof -
  have z: "wdt_cpt (goToSleep_enter D s) = 0"
    by (simp add: goToSleep_enter_def emit_def Let_def)
  show ?thesis
    unfolding goToSleep_def Let_def sleep_while_from_zero [OF z]
    by (simp add: goToSleep_exit_def goToSleep_enter_def emit_def goToSleep_events_def
        sint_shift3 Let_def word_sless_alt)
qed

lemma halts_Nil: "halts [] = 0"
  by (simp add: halts_def)

lemma halts_Cons: "halts (e # tr) = (if e = Sleep_mode then 1 else 0) + halts tr"
  by (simp add: halts_def)

lemma halts_append: "halts (xs @ ys) = halts xs + halts ys"
  by (simp add: halts_def)

lemma halts_iterations: "halts (concat (replicate k sleep_body_events)) = k"
  by (induction k) (simp_all add: halts_Nil halts_Cons halts_append sleep_body_events_def)


lemma real_period_eq: "8 * signed_drop_bit 3 (D :: int16) = word_of_int (8 * (sint D div 8))"
proof -
  have "word_of_int (8 * sint (signed_drop_bit 3 D)) = 8 * signed_drop_bit 3 D"
    by simp
  then show ?thesis
    by (simp only: sint_shift3)
qed

lemma sint_floor8:
  fixes D :: int16
  shows "sint (word_of_int (8 * (sint D div 8)) :: int16) = 8 * (sint D div 8)"
proof -
  have lo: "- 32768 \<le> sint D"
    using sint_ge [of D] by simp
  have hi: "sint D < 32768"
    using sint_lt [of D] by simp
  have "- 32768 \<le> 8 * (sint D div 8)" "8 * (sint D div 8) < 32768"
    using lo hi by presburger+
  then have "signed_take_bit 15 (8 * (sint D div 8)) = 8 * (sint D div 8)"
    by (intro signed_take_bit_int_eq_self) simp_all
  then show ?thesis
    unfolding sint_sbintrunc' by simp
qed

subsection \<open>The sleep request under any arrival of ticks\<close>

lemma ISR_runs: "(ISR_WDT_vect ^^ n) s = s\<lparr>wdt_cpt := wdt_cpt s + of_nat n\<rparr>"
  by (induction n) (simp_all add: ISR_WDT_vect_def add.assoc)

lemma call_irq_eq:
  "call_irq tk e s =
     s\<lparr>wdt_cpt := wdt_cpt s + of_nat (tk (trace s @ [e])), trace := trace s @ [e]\<rparr>"
  by (simp add: call_irq_def emit_def Let_def ISR_runs)

lemma sleep_body_irq_eq:
  "sleep_body_irq tk s =
     s\<lparr>wdt_cpt := wdt_cpt s + of_nat (ticks_during tk (trace s) sleep_body_events),
       trace := trace s @ sleep_body_events\<rparr>"
  by (simp add: sleep_body_irq_def sleep_8s_irq_def call_irq_eq Let_def sleep_body_events_def
      add.assoc)

lemma one_tick_per_halt_snoc:
  "one_tick_per_halt (tr @ [e]) = (if e = Sleep_mode then 1 else 0)"
  by (simp add: one_tick_per_halt_def)

lemma one_tick_per_halt_le: "one_tick_per_halt tr \<le> 1"
  by (simp add: one_tick_per_halt_def)

lemma tick_at_le: "tick_at n tr \<le> 1"
  using one_tick_per_halt_le [of tr] by (simp add: tick_at_def)

lemma tick_at_halt: "tick_at n (tr @ [Sleep_mode]) = 1"
  by (simp add: tick_at_def one_tick_per_halt_snoc)

lemma tick_at_later: "n < length tr \<Longrightarrow> tick_at n tr = one_tick_per_halt tr"
  by (simp add: tick_at_def)

lemma ticks_during_regular:
  "\<forall>tr'. tr' \<noteq> [] \<longrightarrow> tk (tr @ tr') = one_tick_per_halt (tr @ tr') \<Longrightarrow>
   ticks_during tk tr es = halts es"
proof (induction es arbitrary: tr)
  case Nil
  show ?case
    by (simp add: halts_Nil)
next
  case (Cons e es)
  have here: "tk (tr @ [e]) = (if e = Sleep_mode then 1 else 0)"
    using Cons.prems by (simp add: one_tick_per_halt_snoc)
  have "\<forall>tr'. tr' \<noteq> [] \<longrightarrow> tk ((tr @ [e]) @ tr') = one_tick_per_halt ((tr @ [e]) @ tr')"
    using Cons.prems by simp
  then have "ticks_during tk (tr @ [e]) es = halts es"
    by (rule Cons.IH)
  with here show ?case
    by (simp add: halts_Cons)
qed

lemma sleep_body_irq_regular:
  assumes "\<forall>tr'. tr' \<noteq> [] \<longrightarrow> tk (trace s @ tr') = one_tick_per_halt (trace s @ tr')"
  shows "sleep_body_irq tk s = sleep_body s"
proof -
  have "halts sleep_body_events = 1"
    by (simp add: sleep_body_events_def halts_Cons halts_Nil)
  then show ?thesis
    by (simp add: sleep_body_irq_eq sleep_body_eq ticks_during_regular [OF assms])
qed

lemma sleep_while_irq_regular:
  "\<forall>tr'. tr' \<noteq> [] \<longrightarrow> tk (trace s @ tr') = one_tick_per_halt (trace s @ tr') \<Longrightarrow>
   sleep_while_irq tk sec s = Some (sleep_while sec s)"
proof (induction sec s rule: sleep_while.induct)
  case (1 sec s)
  note agree = "1.prems"
  show ?case
  proof (cases "wdt_cpt s <s sec")
    case True
    have body: "sleep_body_irq tk s = sleep_body s"
      using agree by (rule sleep_body_irq_regular)
    have "\<forall>tr'. tr' \<noteq> [] \<longrightarrow>
        tk (trace (sleep_body s) @ tr') = one_tick_per_halt (trace (sleep_body s) @ tr')"
      using agree by (simp add: sleep_body_eq)
    with True have "sleep_while_irq tk sec (sleep_body s) = Some (sleep_while sec (sleep_body s))"
      by (rule "1.IH")
    moreover have "sleep_while_irq tk sec s = sleep_while_irq tk sec (sleep_body_irq tk s)"
      using True by (subst sleep_while_irq.simps) simp
    moreover have "sleep_while sec s = sleep_while sec (sleep_body s)"
      using True by (subst sleep_while.simps) simp
    ultimately show ?thesis
      by (simp only: body)
  next
    case False
    have "sleep_while_irq tk sec s = Some s"
      using False by (subst sleep_while_irq.simps) simp
    moreover have "sleep_while sec s = s"
      using False by (rule sleep_while_done)
    ultimately show ?thesis
      by simp
  qed
qed

lemma sleep_while_irq_exit:
  assumes "sleep_while_irq tk sec s = Some s2"
  shows "\<not> wdt_cpt s2 <s sec \<and> (\<exists>m. trace s2 = trace s @ concat (replicate m sleep_body_events))"
proof (rule sleep_while_irq.raw_induct [where P = "\<lambda>tk sec s s2. \<not> wdt_cpt s2 <s sec
      \<and> (\<exists>m. trace s2 = trace s @ concat (replicate m sleep_body_events))", OF _ assms])
  fix f :: "ticks \<Rightarrow> int16 \<Rightarrow> mcu \<Rightarrow> mcu option" and tk sec s s2
  assume IH: "\<And>tk sec s s2. f tk sec s = Some s2 \<Longrightarrow> \<not> wdt_cpt s2 <s sec
      \<and> (\<exists>m. trace s2 = trace s @ concat (replicate m sleep_body_events))"
  assume eq: "(if wdt_cpt s <s sec then f tk sec (sleep_body_irq tk s) else Some s) = Some s2"
  show "\<not> wdt_cpt s2 <s sec \<and> (\<exists>m. trace s2 = trace s @ concat (replicate m sleep_body_events))"
  proof (cases "wdt_cpt s <s sec")
    case True
    with eq have "f tk sec (sleep_body_irq tk s) = Some s2"
      by simp
    then have "\<not> wdt_cpt s2 <s sec \<and>
        (\<exists>m. trace s2 = trace (sleep_body_irq tk s) @ concat (replicate m sleep_body_events))"
      by (rule IH)
    then obtain m where stop: "\<not> wdt_cpt s2 <s sec"
      and tr: "trace s2 = trace (sleep_body_irq tk s) @ concat (replicate m sleep_body_events)"
      by blast
    from tr have "trace s2 = trace s @ concat (replicate (Suc m) sleep_body_events)"
      by (simp add: sleep_body_irq_eq)
    with stop show ?thesis
      by blast
  next
    case False
    with eq have same: "s2 = s"
      by simp
    then have "trace s2 = trace s @ concat (replicate 0 sleep_body_events)"
      by simp
    with False same show ?thesis
      by blast
  qed
qed

lemma ticks_during_append:
  "ticks_during tk tr (xs @ ys) = ticks_during tk tr xs + ticks_during tk (tr @ xs) ys"
  by (induction xs arbitrary: tr) simp_all

lemma ticks_during_le:
  "\<forall>tr. tk tr \<le> 1 \<Longrightarrow> ticks_during tk tr es \<le> length es"
proof (induction es arbitrary: tr)
  case Nil
  show ?case
    by simp
next
  case (Cons e es)
  from Cons.prems have "tk (tr @ [e]) \<le> 1"
    by blast
  moreover from Cons.prems have "ticks_during tk (tr @ [e]) es \<le> length es"
    by (rule Cons.IH)
  ultimately show ?case
    by simp
qed

lemma pass_ticks_bounds:
  assumes "\<forall>tr. tk tr \<le> 1" and "\<forall>tr. tk (tr @ [Sleep_mode]) = 1"
  shows "1 \<le> ticks_during tk tr sleep_body_events"
    and "ticks_during tk tr sleep_body_events \<le> 8"
proof -
  let ?xs = "[Serial_print ''* '', Delay 100, Set_sleep_mode SLEEP_MODE_PWR_DOWN, Sleep_enable]"
  let ?ys = "[Sleep_disable, Power_all_enable, Delay 100]"
  have split: "sleep_body_events = ?xs @ Sleep_mode # ?ys"
    by (simp add: sleep_body_events_def)
  have "tk ((tr @ ?xs) @ [Sleep_mode]) = 1"
    using assms(2) by blast
  then have "1 \<le> ticks_during tk (tr @ ?xs) (Sleep_mode # ?ys)"
    by (simp only: ticks_during.simps)
  then show "1 \<le> ticks_during tk tr sleep_body_events"
    by (simp only: split ticks_during_append trans_le_add2)
  have "ticks_during tk tr sleep_body_events \<le> length sleep_body_events"
    using assms(1) by (rule ticks_during_le)
  then show "ticks_during tk tr sleep_body_events \<le> 8"
    by (simp add: sleep_body_events_def)
qed

lemma sint_add_ticks:
  fixes c :: int16
  assumes "0 \<le> sint c" and "sint c \<le> 4095" and "p \<le> 8"
  shows "sint (c + of_nat p) = sint c + int p"
proof -
  have "sint (of_nat p :: int16) = int p"
    using assms(3) by (simp add: signed_of_nat signed_take_bit_int_eq_self)
  moreover have "- 32768 \<le> sint c + int p" and "sint c + int p < 32768"
    using assms by simp_all
  ultimately show ?thesis
    by (simp add: sint_word_ariths signed_take_bit_int_eq_self)
qed

lemma sleep_while_irq_returns:
  assumes one: "\<forall>tr. tk tr \<le> 1" and wake: "\<forall>tr. tk (tr @ [Sleep_mode]) = 1"
    and small: "sint sec \<le> 4095"
  shows "0 \<le> sint (wdt_cpt s) \<Longrightarrow>
    \<exists>m s2. sleep_while_irq tk sec s = Some s2
      \<and> trace s2 = trace s @ concat (replicate m sleep_body_events)
      \<and> int m \<le> max 0 (sint sec - sint (wdt_cpt s))"
proof (induction "nat (sint sec - sint (wdt_cpt s))" arbitrary: s rule: less_induct)
  case less
  show ?case
  proof (cases "wdt_cpt s <s sec")
    case False
    have "sleep_while_irq tk sec s = Some s"
      using False by (subst sleep_while_irq.simps) simp
    moreover have "trace s = trace s @ concat (replicate 0 sleep_body_events)"
      by simp
    moreover have "int 0 \<le> max 0 (sint sec - sint (wdt_cpt s))"
      by simp
    ultimately show ?thesis
      by blast
  next
    case True
    let ?p = "ticks_during tk (trace s) sleep_body_events"
    let ?s' = "sleep_body_irq tk s"
    have below: "sint (wdt_cpt s) < sint sec"
      using True by (simp add: word_sless_alt)
    have p: "1 \<le> ?p" "?p \<le> 8"
      using one wake by (rule pass_ticks_bounds)+
    have c': "sint (wdt_cpt ?s') = sint (wdt_cpt s) + int ?p"
      using less.prems below small p(2) by (simp add: sleep_body_irq_eq sint_add_ticks)
    have "nat (sint sec - sint (wdt_cpt ?s')) < nat (sint sec - sint (wdt_cpt s))"
      using c' below p(1) by simp
    moreover have "0 \<le> sint (wdt_cpt ?s')"
      using c' less.prems by simp
    ultimately have "\<exists>m s2. sleep_while_irq tk sec ?s' = Some s2
      \<and> trace s2 = trace ?s' @ concat (replicate m sleep_body_events)
      \<and> int m \<le> max 0 (sint sec - sint (wdt_cpt ?s'))"
      by (rule less.hyps)
    then obtain m s2 where ret: "sleep_while_irq tk sec ?s' = Some s2"
      and tr: "trace s2 = trace ?s' @ concat (replicate m sleep_body_events)"
      and m: "int m \<le> max 0 (sint sec - sint (wdt_cpt ?s'))"
      by blast
    have "sleep_while_irq tk sec s = Some s2"
      using True ret by (subst sleep_while_irq.simps) simp
    moreover from tr have "trace s2 = trace s @ concat (replicate (Suc m) sleep_body_events)"
      by (simp add: sleep_body_irq_eq)
    moreover have "int (Suc m) \<le> max 0 (sint sec - sint (wdt_cpt s))"
      using m c' below p(1) by simp
    ultimately show ?thesis
      by blast
  qed
qed

lemma goToSleep_enter_irq_eq:
  "goToSleep_enter_irq tk D s =
     s\<lparr>wdt_cpt := of_nat (ticks_during tk (trace s) (announce_events D)),
       trace := trace s @ announce_events D\<rparr>"
  by (simp add: goToSleep_enter_irq_def call_irq_eq Let_def announce_events_def add.assoc)

lemma goToSleep_exit_irq_eq:
  "goToSleep_exit_irq tk s =
     s\<lparr>wdt_cpt := of_nat (tk (trace s @ [Serial_println ''Wake up !''])),
       trace := trace s @ [Serial_println ''Wake up !'']\<rparr>"
  by (simp add: goToSleep_exit_irq_def call_irq_eq Let_def)

lemma goToSleep_irq_reset: "goToSleep_irq tk D (s\<lparr>wdt_cpt := c\<rparr>) = goToSleep_irq tk D s"
  by (simp add: goToSleep_irq_def goToSleep_enter_irq_eq Let_def)

lemma shift_floor:
  "signed_drop_bit 3 (word_of_int (8 * (sint D div 8)) :: int16) = signed_drop_bit 3 D"
proof -
  let ?D' = "word_of_int (8 * (sint D div 8)) :: int16"
  have "sint ?D' div 8 = sint D div 8"
    unfolding sint_floor8 by simp
  then have "sint (signed_drop_bit 3 ?D') = sint (signed_drop_bit 3 D)"
    by (simp only: sint_shift3)
  then show ?thesis
    by (rule signed_word_eqI)
qed

lemma goToSleep_irq_floor:
  "goToSleep_irq tk (word_of_int (8 * (sint D div 8))) s = goToSleep_irq tk D s"
  by (simp only: goToSleep_irq_def goToSleep_enter_irq_def shift_floor)

lemma goToSleep_irq_regular: "goToSleep_irq one_tick_per_halt D s = Some (goToSleep D s)"
proof -
  have "ticks_during one_tick_per_halt (trace s) (announce_events D) = halts (announce_events D)"
    by (rule ticks_during_regular) simp
  then have enter: "goToSleep_enter_irq one_tick_per_halt D s = goToSleep_enter D s"
    by (simp add: goToSleep_enter_irq_eq goToSleep_enter_def emit_def Let_def announce_events_def
        halts_Cons halts_Nil)
  have loop: "sleep_while_irq one_tick_per_halt (signed_drop_bit 3 D) (goToSleep_enter D s) =
      Some (sleep_while (signed_drop_bit 3 D) (goToSleep_enter D s))"
    by (rule sleep_while_irq_regular) simp
  have exit: "goToSleep_exit_irq one_tick_per_halt s2 = goToSleep_exit s2" for s2
    by (simp add: goToSleep_exit_irq_eq goToSleep_exit_def emit_def Let_def
        one_tick_per_halt_snoc)
  show ?thesis
    by (simp add: goToSleep_irq_def goToSleep_def Let_def enter loop exit)
qed

lemma goToSleep_irq_returned:
  assumes "goToSleep_irq tk D s = Some s'"
  shows "\<exists>m s2. sleep_while_irq tk (signed_drop_bit 3 D) (goToSleep_enter_irq tk D s) = Some s2
      \<and> sint D div 8 \<le> sint (wdt_cpt s2)
      \<and> trace s2 = trace s @ announce_events D @ concat (replicate m sleep_body_events)
      \<and> s' = goToSleep_exit_irq tk s2
      \<and> trace s' = trace s2 @ [Serial_println ''Wake up !'']
      \<and> wdt_cpt s' = of_nat (tk (trace s'))
      \<and> halts (trace s') = halts (trace s) + m"
proof -
  from assms obtain s2
    where loop: "sleep_while_irq tk (signed_drop_bit 3 D) (goToSleep_enter_irq tk D s) = Some s2"
      and s': "s' = goToSleep_exit_irq tk s2"
    by (auto simp add: goToSleep_irq_def Let_def split: option.splits)
  from loop obtain m where stop: "\<not> wdt_cpt s2 <s signed_drop_bit 3 D"
    and tr: "trace s2 = trace (goToSleep_enter_irq tk D s) @ concat (replicate m sleep_body_events)"
    using sleep_while_irq_exit by blast
  from stop have reached: "sint D div 8 \<le> sint (wdt_cpt s2)"
    by (simp add: word_sless_alt sint_shift3)
  from tr have tr2: "trace s2 = trace s @ announce_events D @ concat (replicate m sleep_body_events)"
    by (simp add: goToSleep_enter_irq_eq)
  have tr': "trace s' = trace s2 @ [Serial_println ''Wake up !'']"
    by (simp add: s' goToSleep_exit_irq_eq)
  have cnt: "wdt_cpt s' = of_nat (tk (trace s'))"
    by (simp add: s' goToSleep_exit_irq_eq)
  have "halts (announce_events D) = 0"
    by (simp add: announce_events_def halts_Cons halts_Nil)
  then have h: "halts (trace s') = halts (trace s) + m"
    by (simp add: tr' tr2 halts_append halts_iterations halts_Cons halts_Nil)
  from loop reached tr2 s' tr' cnt h show ?thesis
    by blast
qed

lemma goToSleep_irq_returns:
  assumes one: "\<forall>tr. tk tr \<le> 1" and wake: "\<forall>tr. tk (tr @ [Sleep_mode]) = 1"
    and pos: "0 \<le> sint D"
  shows "\<exists>s' m. goToSleep_irq tk D s = Some s'
      \<and> halts (trace s') = halts (trace s) + m \<and> int m \<le> sint D div 8"
proof -
  let ?s1 = "goToSleep_enter_irq tk D s"
  let ?t = "ticks_during tk (trace s) (announce_events D)"
  have "?t \<le> length (announce_events D)"
    using one by (rule ticks_during_le)
  then have t: "?t \<le> 3"
    by (simp add: announce_events_def)
  then have "sint (of_nat ?t :: int16) = int ?t"
    by (simp add: signed_of_nat signed_take_bit_int_eq_self)
  then have c0: "0 \<le> sint (wdt_cpt ?s1)"
    by (simp add: goToSleep_enter_irq_eq)
  have "sint D < 32768"
    using sint_lt [of D] by simp
  then have small: "sint (signed_drop_bit 3 D) \<le> 4095"
    by (simp add: sint_shift3)
  from one wake small c0
  have "\<exists>m s2. sleep_while_irq tk (signed_drop_bit 3 D) ?s1 = Some s2
      \<and> trace s2 = trace ?s1 @ concat (replicate m sleep_body_events)
      \<and> int m \<le> max 0 (sint (signed_drop_bit 3 D) - sint (wdt_cpt ?s1))"
    by (rule sleep_while_irq_returns)
  then obtain m s2 where loop: "sleep_while_irq tk (signed_drop_bit 3 D) ?s1 = Some s2"
    and tr: "trace s2 = trace ?s1 @ concat (replicate m sleep_body_events)"
    and m: "int m \<le> max 0 (sint (signed_drop_bit 3 D) - sint (wdt_cpt ?s1))"
    by blast
  from loop have ret: "goToSleep_irq tk D s = Some (goToSleep_exit_irq tk s2)"
    by (simp add: goToSleep_irq_def Let_def)
  have "halts (announce_events D) = 0"
    by (simp add: announce_events_def halts_Cons halts_Nil)
  then have h: "halts (trace (goToSleep_exit_irq tk s2)) = halts (trace s) + m"
    by (simp add: goToSleep_exit_irq_eq tr goToSleep_enter_irq_eq halts_append halts_iterations
        halts_Cons halts_Nil)
  have "0 \<le> sint D div 8"
    using pos by (simp add: pos_imp_zdiv_nonneg_iff)
  with m c0 have "int m \<le> sint D div 8"
    by (simp add: sint_shift3)
  with ret h show ?thesis
    by blast
qed

lemma announce_floor:
  "announce_events D =
     [Serial_print ''Sleep ('', Serial_print_DEC (word_of_int (8 * (sint D div 8))),
      Serial_print ''s) '']"
  by (simp only: announce_events_def real_period_eq)

lemma announce_multiple:
  assumes "sint D mod 8 = 0"
  shows "announce_events D = [Serial_print ''Sleep ('', Serial_print_DEC D, Serial_print ''s) '']"
proof -
  from assms have "8 * (sint D div 8) = sint D"
    by presburger
  moreover have "(word_of_int (sint D) :: int16) = D"
    by simp
  ultimately have "(word_of_int (8 * (sint D div 8)) :: int16) = D"
    by (simp only:)
  then show ?thesis
    by (simp only: announce_floor)
qed

lemma goToSleep_irq_regular_run:
  assumes "0 \<le> sint D"
  shows "\<exists>s2. sleep_while_irq one_tick_per_halt (signed_drop_bit 3 D)
               (goToSleep_enter_irq one_tick_per_halt D s) = Some s2
      \<and> wdt_cpt (goToSleep_enter_irq one_tick_per_halt D s) = 0
      \<and> sint (wdt_cpt s2) = sint D div 8
      \<and> trace s2 = trace s @ announce_events D
           @ concat (replicate (nat (sint D div 8)) sleep_body_events)
      \<and> goToSleep_irq one_tick_per_halt D s = Some (goToSleep_exit_irq one_tick_per_halt s2)
      \<and> wdt_cpt (goToSleep_exit_irq one_tick_per_halt s2) = 0
      \<and> trace (goToSleep_exit_irq one_tick_per_halt s2) = trace s2 @ [Serial_println ''Wake up !'']
      \<and> halts (trace (goToSleep_exit_irq one_tick_per_halt s2)) =
          halts (trace s) + nat (sint D div 8)"
proof -
  let ?tk = one_tick_per_halt
  let ?sec = "signed_drop_bit 3 D"
  let ?s1 = "goToSleep_enter_irq ?tk D s"
  let ?k = "nat (sint D div 8)"
  have quiet: "ticks_during ?tk (trace s) (announce_events D) = halts (announce_events D)"
    by (rule ticks_during_regular) simp
  have none: "halts (announce_events D) = 0"
    by (simp add: announce_events_def halts_Cons halts_Nil)
  have s1: "?s1 = s\<lparr>wdt_cpt := 0, trace := trace s @ announce_events D\<rparr>"
    by (simp add: goToSleep_enter_irq_eq quiet none)
  have z: "wdt_cpt ?s1 = 0"
    by (simp add: s1)
  have k: "sint ?sec = int ?k"
    using assms by (simp add: sint_shift3 pos_imp_zdiv_nonneg_iff)
  have "sleep_while_irq ?tk ?sec ?s1 = Some (sleep_while ?sec ?s1)"
    by (rule sleep_while_irq_regular) simp
  moreover have "sint ?sec - sint (wdt_cpt ?s1) = int ?k"
    using k z by simp
  then have "sleep_while ?sec ?s1 =
      ?s1\<lparr>wdt_cpt := ?sec, trace := trace ?s1 @ concat (replicate ?k sleep_body_events)\<rparr>"
    by (rule sleep_while_count)
  ultimately have loop: "sleep_while_irq ?tk ?sec ?s1 =
      Some (s\<lparr>wdt_cpt := ?sec,
        trace := trace s @ announce_events D @ concat (replicate ?k sleep_body_events)\<rparr>)"
    by (simp add: s1)
  let ?s2 = "s\<lparr>wdt_cpt := ?sec,
        trace := trace s @ announce_events D @ concat (replicate ?k sleep_body_events)\<rparr>"
  have c2: "sint (wdt_cpt ?s2) = sint D div 8"
    by (simp add: sint_shift3)
  have t2: "trace ?s2 = trace s @ announce_events D @ concat (replicate ?k sleep_body_events)"
    by simp
  have ret: "goToSleep_irq ?tk D s = Some (goToSleep_exit_irq ?tk ?s2)"
    unfolding goToSleep_irq_def Let_def loop by simp
  have w: "wdt_cpt (goToSleep_exit_irq ?tk ?s2) = 0"
    by (simp add: goToSleep_exit_irq_eq one_tick_per_halt_def)
  have t3: "trace (goToSleep_exit_irq ?tk ?s2) = trace ?s2 @ [Serial_println ''Wake up !'']"
    by (simp add: goToSleep_exit_irq_eq)
  have h: "halts (trace (goToSleep_exit_irq ?tk ?s2)) = halts (trace s) + ?k"
    by (simp add: goToSleep_exit_irq_eq halts_append halts_iterations halts_Cons halts_Nil none)
  from loop z c2 t2 ret w t3 h show ?thesis
    by (intro exI [where x = ?s2] conjI)
qed

subsection \<open>C2: a sleep request for a multiple of 8 seconds\<close>

text \<open>
  Claim C2, amended. For a duration \<open>D\<close> that is a non-negative multiple of 8 and any
  arrival of watchdog ticks: \<open>goToSleep D\<close> sets \<open>wdt_cpt\<close> to zero before the loop
  (the counter it finds does not matter, and at the first test the counter holds the ticks
  of the three prints only); every pass of the loop halts once; when \<open>goToSleep\<close>
  returns, the loop has ended with at least \<open>D / 8\<close> ticks counted, and the counter has
  been set to zero again before the wake-up line (on return it holds the ticks of that
  print only). When the routine runs once in each halt and not while the processor is
  awake, \<open>goToSleep D\<close> returns after exactly \<open>D / 8\<close> passes with exactly \<open>D / 8\<close>
  ticks counted, 15 passes for \<open>goToSleep 120\<close>, and it is the \<open>goToSleep\<close> that
  \<open>loop\<close> uses. When no call sees more than one tick and every halt ends with one,
  \<open>goToSleep D\<close> returns after at most \<open>D / 8\<close> halts.
\<close>

theorem goToSleep_irq_multiple_of_tick:
  assumes "0 \<le> sint D" and "sint D mod 8 = 0"
  shows
   "goToSleep_irq tk D (s\<lparr>wdt_cpt := c\<rparr>) = goToSleep_irq tk D s
    \<and> announce_events D = [Serial_print ''Sleep ('', Serial_print_DEC D, Serial_print ''s) '']
    \<and> wdt_cpt (goToSleep_enter_irq tk D s) = of_nat (ticks_during tk (trace s) (announce_events D))
    \<and> (\<forall>s'. goToSleep_irq tk D s = Some s' \<longrightarrow>
          (\<exists>m s2. sleep_while_irq tk (signed_drop_bit 3 D) (goToSleep_enter_irq tk D s) = Some s2
             \<and> sint D \<le> 8 * sint (wdt_cpt s2)
             \<and> trace s2 = trace s @ announce_events D @ concat (replicate m sleep_body_events)
             \<and> s' = goToSleep_exit_irq tk s2
             \<and> trace s' = trace s2 @ [Serial_println ''Wake up !'']
             \<and> wdt_cpt s' = of_nat (tk (trace s'))
             \<and> halts (trace s') = halts (trace s) + m))
    \<and> (\<exists>s2. sleep_while_irq one_tick_per_halt (signed_drop_bit 3 D)
                 (goToSleep_enter_irq one_tick_per_halt D s) = Some s2
          \<and> wdt_cpt (goToSleep_enter_irq one_tick_per_halt D s) = 0
          \<and> 8 * sint (wdt_cpt s2) = sint D
          \<and> trace s2 = trace s @ announce_events D
               @ concat (replicate (nat (sint D div 8)) sleep_body_events)
          \<and> goToSleep_irq one_tick_per_halt D s = Some (goToSleep_exit_irq one_tick_per_halt s2)
          \<and> wdt_cpt (goToSleep_exit_irq one_tick_per_halt s2) = 0
          \<and> halts (trace (goToSleep_exit_irq one_tick_per_halt s2)) =
              halts (trace s) + nat (sint D div 8))
    \<and> goToSleep_irq one_tick_per_halt D s = Some (goToSleep D s)
    \<and> ((\<forall>tr. tk tr \<le> 1) \<and> (\<forall>tr. tk (tr @ [Sleep_mode]) = 1) \<longrightarrow>
          (\<exists>s' m. goToSleep_irq tk D s = Some s'
             \<and> halts (trace s') = halts (trace s) + m \<and> 8 * int m \<le> sint D))"
proof -
  have exact: "8 * (sint D div 8) = sint D"
    using assms(2) by presburger
  have reset: "goToSleep_irq tk D (s\<lparr>wdt_cpt := c\<rparr>) = goToSleep_irq tk D s"
    by (rule goToSleep_irq_reset)
  have ann: "announce_events D = [Serial_print ''Sleep ('', Serial_print_DEC D, Serial_print ''s) '']"
    using assms(2) by (rule announce_multiple)
  have entry: "wdt_cpt (goToSleep_enter_irq tk D s) =
      of_nat (ticks_during tk (trace s) (announce_events D))"
    by (simp add: goToSleep_enter_irq_eq)
  have general: "\<forall>s'. goToSleep_irq tk D s = Some s' \<longrightarrow>
          (\<exists>m s2. sleep_while_irq tk (signed_drop_bit 3 D) (goToSleep_enter_irq tk D s) = Some s2
             \<and> sint D \<le> 8 * sint (wdt_cpt s2)
             \<and> trace s2 = trace s @ announce_events D @ concat (replicate m sleep_body_events)
             \<and> s' = goToSleep_exit_irq tk s2
             \<and> trace s' = trace s2 @ [Serial_println ''Wake up !'']
             \<and> wdt_cpt s' = of_nat (tk (trace s'))
             \<and> halts (trace s') = halts (trace s) + m)"
  proof (intro allI impI)
    fix s'
    assume "goToSleep_irq tk D s = Some s'"
    then obtain m s2
      where a: "sleep_while_irq tk (signed_drop_bit 3 D) (goToSleep_enter_irq tk D s) = Some s2"
        and b: "sint D div 8 \<le> sint (wdt_cpt s2)"
        and c: "trace s2 = trace s @ announce_events D @ concat (replicate m sleep_body_events)"
        and d: "s' = goToSleep_exit_irq tk s2"
        and e: "trace s' = trace s2 @ [Serial_println ''Wake up !'']"
        and f: "wdt_cpt s' = of_nat (tk (trace s'))"
        and g: "halts (trace s') = halts (trace s) + m"
      using goToSleep_irq_returned by blast
    from b exact have "sint D \<le> 8 * sint (wdt_cpt s2)"
      by simp
    with a c d e f g
    show "\<exists>m s2. sleep_while_irq tk (signed_drop_bit 3 D) (goToSleep_enter_irq tk D s) = Some s2
             \<and> sint D \<le> 8 * sint (wdt_cpt s2)
             \<and> trace s2 = trace s @ announce_events D @ concat (replicate m sleep_body_events)
             \<and> s' = goToSleep_exit_irq tk s2
             \<and> trace s' = trace s2 @ [Serial_println ''Wake up !'']
             \<and> wdt_cpt s' = of_nat (tk (trace s'))
             \<and> halts (trace s') = halts (trace s) + m"
      by blast
  qed
  from goToSleep_irq_regular_run [OF assms(1)] obtain s2
    where r1: "sleep_while_irq one_tick_per_halt (signed_drop_bit 3 D)
                 (goToSleep_enter_irq one_tick_per_halt D s) = Some s2"
      and r2: "wdt_cpt (goToSleep_enter_irq one_tick_per_halt D s) = 0"
      and r3: "sint (wdt_cpt s2) = sint D div 8"
      and r4: "trace s2 = trace s @ announce_events D
               @ concat (replicate (nat (sint D div 8)) sleep_body_events)"
      and r5: "goToSleep_irq one_tick_per_halt D s = Some (goToSleep_exit_irq one_tick_per_halt s2)"
      and r6: "wdt_cpt (goToSleep_exit_irq one_tick_per_halt s2) = 0"
      and r7: "halts (trace (goToSleep_exit_irq one_tick_per_halt s2)) =
              halts (trace s) + nat (sint D div 8)"
    by blast
  from r3 exact have r3': "8 * sint (wdt_cpt s2) = sint D"
    by simp
  from r1 r2 r3' r4 r5 r6 r7
  have regular: "\<exists>s2. sleep_while_irq one_tick_per_halt (signed_drop_bit 3 D)
                 (goToSleep_enter_irq one_tick_per_halt D s) = Some s2
          \<and> wdt_cpt (goToSleep_enter_irq one_tick_per_halt D s) = 0
          \<and> 8 * sint (wdt_cpt s2) = sint D
          \<and> trace s2 = trace s @ announce_events D
               @ concat (replicate (nat (sint D div 8)) sleep_body_events)
          \<and> goToSleep_irq one_tick_per_halt D s = Some (goToSleep_exit_irq one_tick_per_halt s2)
          \<and> wdt_cpt (goToSleep_exit_irq one_tick_per_halt s2) = 0
          \<and> halts (trace (goToSleep_exit_irq one_tick_per_halt s2)) =
              halts (trace s) + nat (sint D div 8)"
    by (intro exI [where x = s2] conjI)
  have link: "goToSleep_irq one_tick_per_halt D s = Some (goToSleep D s)"
    by (rule goToSleep_irq_regular)
  have bounded: "(\<forall>tr. tk tr \<le> 1) \<and> (\<forall>tr. tk (tr @ [Sleep_mode]) = 1) \<longrightarrow>
          (\<exists>s' m. goToSleep_irq tk D s = Some s'
             \<and> halts (trace s') = halts (trace s) + m \<and> 8 * int m \<le> sint D)"
  proof (intro impI, elim conjE)
    assume one: "\<forall>tr. tk tr \<le> 1" and wake: "\<forall>tr. tk (tr @ [Sleep_mode]) = 1"
    from goToSleep_irq_returns [OF one wake assms(1)] obtain s' m
      where "goToSleep_irq tk D s = Some s'" and "halts (trace s') = halts (trace s) + m"
        and "int m \<le> sint D div 8"
      by blast
    moreover from this(3) exact have "8 * int m \<le> sint D"
      by simp
    ultimately show "\<exists>s' m. goToSleep_irq tk D s = Some s'
             \<and> halts (trace s') = halts (trace s) + m \<and> 8 * int m \<le> sint D"
      by blast
  qed
  from reset ann entry general regular link bounded show ?thesis
    by (intro conjI)
qed

theorem goToSleep_irq_multiple_of_tick_witness:
  "0 \<le> sint (120 :: int16) \<and> sint (120 :: int16) mod 8 = 0
   \<and> (\<forall>tr. tick_at 5 tr \<le> 1) \<and> (\<forall>tr. tick_at 5 (tr @ [Sleep_mode]) = 1)
   \<and> goToSleep_irq (tick_at 5) 120 ((power_on 0 0)\<lparr>wdt_cpt := 7\<rparr>) =
       goToSleep_irq (tick_at 5) 120 (power_on 0 0)
   \<and> (\<exists>s' m. goToSleep_irq (tick_at 5) 120 (power_on 0 0) = Some s'
         \<and> halts (trace s') = m \<and> 8 * int m \<le> 120)
   \<and> goToSleep_irq (tick_at 5) 120 (power_on 0 0) = Some ((power_on 0 0)\<lparr>trace :=
       [Serial_print ''Sleep ('', Serial_print_DEC 120, Serial_print ''s) '']
       @ concat (replicate 14 sleep_body_events)
       @ [Serial_println ''Wake up !'']\<rparr>)
   \<and> (\<exists>m s2. sleep_while_irq (tick_at 5) (signed_drop_bit 3 120)
             (goToSleep_enter_irq (tick_at 5) 120 (power_on 0 0)) = Some s2
         \<and> sint (120 :: int16) \<le> 8 * sint (wdt_cpt s2)
         \<and> trace s2 = trace (power_on 0 0) @ announce_events 120
              @ concat (replicate m sleep_body_events)
         \<and> ((power_on 0 0)\<lparr>trace :=
       [Serial_print ''Sleep ('', Serial_print_DEC 120, Serial_print ''s) '']
       @ concat (replicate 14 sleep_body_events)
       @ [Serial_println ''Wake up !'']\<rparr>) = goToSleep_exit_irq (tick_at 5) s2
         \<and> trace ((power_on 0 0)\<lparr>trace :=
       [Serial_print ''Sleep ('', Serial_print_DEC 120, Serial_print ''s) '']
       @ concat (replicate 14 sleep_body_events)
       @ [Serial_println ''Wake up !'']\<rparr>) = trace s2 @ [Serial_println ''Wake up !'']
         \<and> wdt_cpt ((power_on 0 0)\<lparr>trace :=
       [Serial_print ''Sleep ('', Serial_print_DEC 120, Serial_print ''s) '']
       @ concat (replicate 14 sleep_body_events)
       @ [Serial_println ''Wake up !'']\<rparr>) = of_nat (tick_at 5 (trace ((power_on 0 0)\<lparr>trace :=
       [Serial_print ''Sleep ('', Serial_print_DEC 120, Serial_print ''s) '']
       @ concat (replicate 14 sleep_body_events)
       @ [Serial_println ''Wake up !'']\<rparr>)))
         \<and> halts (trace ((power_on 0 0)\<lparr>trace :=
       [Serial_print ''Sleep ('', Serial_print_DEC 120, Serial_print ''s) '']
       @ concat (replicate 14 sleep_body_events)
       @ [Serial_println ''Wake up !'']\<rparr>)) = halts (trace (power_on 0 0)) + m)
   \<and> goToSleep_irq one_tick_per_halt 120 (power_on 0 0) = Some (goToSleep 120 (power_on 0 0))
   \<and> (\<exists>s2. goToSleep_irq one_tick_per_halt 120 (power_on 0 0) =
           Some (goToSleep_exit_irq one_tick_per_halt s2)
         \<and> 8 * sint (wdt_cpt s2) = 120
         \<and> wdt_cpt (goToSleep_exit_irq one_tick_per_halt s2) = 0
         \<and> halts (trace (goToSleep_exit_irq one_tick_per_halt s2)) = 15)"
proof -
  let ?p = "power_on 0 0"
  have a: "0 \<le> sint (120 :: int16)"
    by simp
  have b: "sint (120 :: int16) mod 8 = 0"
    by simp
  have one: "\<forall>tr. tick_at 5 tr \<le> 1"
    by (intro allI tick_at_le)
  have wake: "\<forall>tr. tick_at 5 (tr @ [Sleep_mode]) = 1"
    by (intro allI tick_at_halt)
  have k: "nat (sint (120 :: int16) div 8) = 15"
    by simp
  have d: "halts (trace ?p) = 0"
    by (simp add: power_on_def halts_Nil)
  have v: "sint (120 :: int16) = 120"
    by simp
  note inst = goToSleep_irq_multiple_of_tick [OF a b, where tk = "tick_at 5" and s = ?p and c = 7]
  note i1 = inst [THEN conjunct1]
  note i5 = inst [THEN conjunct2, THEN conjunct2, THEN conjunct2, THEN conjunct2, THEN conjunct1]
  note i6 = inst [THEN conjunct2, THEN conjunct2, THEN conjunct2, THEN conjunct2, THEN conjunct2,
      THEN conjunct1]
  note i7 = inst [THEN conjunct2, THEN conjunct2, THEN conjunct2, THEN conjunct2, THEN conjunct2,
      THEN conjunct2]
  have reset: "goToSleep_irq (tick_at 5) 120 (?p\<lparr>wdt_cpt := 7\<rparr>) =
       goToSleep_irq (tick_at 5) 120 ?p"
    by (rule i1)
  from one wake have bounded: "\<exists>s' m. goToSleep_irq (tick_at 5) 120 ?p = Some s'
         \<and> halts (trace s') = halts (trace ?p) + m \<and> 8 * int m \<le> sint (120 :: int16)"
    by (intro i7 [rule_format] conjI)
  have link: "goToSleep_irq one_tick_per_halt 120 ?p = Some (goToSleep 120 ?p)"
    by (rule i6)
  have regular: "\<exists>s2. goToSleep_irq one_tick_per_halt 120 ?p =
           Some (goToSleep_exit_irq one_tick_per_halt s2)
         \<and> 8 * sint (wdt_cpt s2) = 120
         \<and> wdt_cpt (goToSleep_exit_irq one_tick_per_halt s2) = 0
         \<and> halts (trace (goToSleep_exit_irq one_tick_per_halt s2)) = 15"
  proof -
    from i5 obtain s2 where all: "sleep_while_irq one_tick_per_halt (signed_drop_bit 3 120)
                 (goToSleep_enter_irq one_tick_per_halt 120 ?p) = Some s2
          \<and> wdt_cpt (goToSleep_enter_irq one_tick_per_halt 120 ?p) = 0
          \<and> 8 * sint (wdt_cpt s2) = sint (120 :: int16)
          \<and> trace s2 = trace ?p @ announce_events 120
               @ concat (replicate (nat (sint (120 :: int16) div 8)) sleep_body_events)
          \<and> goToSleep_irq one_tick_per_halt 120 ?p = Some (goToSleep_exit_irq one_tick_per_halt s2)
          \<and> wdt_cpt (goToSleep_exit_irq one_tick_per_halt s2) = 0
          \<and> halts (trace (goToSleep_exit_irq one_tick_per_halt s2)) =
              halts (trace ?p) + nat (sint (120 :: int16) div 8)" ..
    note r3 = all [THEN conjunct2, THEN conjunct2, THEN conjunct1]
    note r5 = all [THEN conjunct2, THEN conjunct2, THEN conjunct2, THEN conjunct2, THEN conjunct1]
    note r6 = all [THEN conjunct2, THEN conjunct2, THEN conjunct2, THEN conjunct2, THEN conjunct2,
        THEN conjunct1]
    note r7 = all [THEN conjunct2, THEN conjunct2, THEN conjunct2, THEN conjunct2, THEN conjunct2,
        THEN conjunct2]
    from r7 have r7': "halts (trace (goToSleep_exit_irq one_tick_per_halt s2)) = 15"
      by (simp add: d)
    from r3 have r3': "8 * sint (wdt_cpt s2) = 120"
      by simp
    from r5 r3' r6 r7' show ?thesis
      by (intro exI [where x = s2] conjI)
  qed
  from bounded have bounded': "\<exists>s' m. goToSleep_irq (tick_at 5) 120 ?p = Some s'
         \<and> halts (trace s') = m \<and> 8 * int m \<le> 120"
    by (simp add: d)
  have run: "goToSleep_irq (tick_at 5) 120 (power_on 0 0) = Some ((power_on 0 0)\<lparr>trace :=
       [Serial_print ''Sleep ('', Serial_print_DEC 120, Serial_print ''s) '']
       @ concat (replicate 14 sleep_body_events)
       @ [Serial_println ''Wake up !'']\<rparr>)"
    by code_simp
  note i4 = inst [THEN conjunct2, THEN conjunct2, THEN conjunct2, THEN conjunct1]
  have general: "\<exists>m s2. sleep_while_irq (tick_at 5) (signed_drop_bit 3 120)
             (goToSleep_enter_irq (tick_at 5) 120 (power_on 0 0)) = Some s2
         \<and> sint (120 :: int16) \<le> 8 * sint (wdt_cpt s2)
         \<and> trace s2 = trace (power_on 0 0) @ announce_events 120
              @ concat (replicate m sleep_body_events)
         \<and> ((power_on 0 0)\<lparr>trace :=
       [Serial_print ''Sleep ('', Serial_print_DEC 120, Serial_print ''s) '']
       @ concat (replicate 14 sleep_body_events)
       @ [Serial_println ''Wake up !'']\<rparr>) = goToSleep_exit_irq (tick_at 5) s2
         \<and> trace ((power_on 0 0)\<lparr>trace :=
       [Serial_print ''Sleep ('', Serial_print_DEC 120, Serial_print ''s) '']
       @ concat (replicate 14 sleep_body_events)
       @ [Serial_println ''Wake up !'']\<rparr>) = trace s2 @ [Serial_println ''Wake up !'']
         \<and> wdt_cpt ((power_on 0 0)\<lparr>trace :=
       [Serial_print ''Sleep ('', Serial_print_DEC 120, Serial_print ''s) '']
       @ concat (replicate 14 sleep_body_events)
       @ [Serial_println ''Wake up !'']\<rparr>) = of_nat (tick_at 5 (trace ((power_on 0 0)\<lparr>trace :=
       [Serial_print ''Sleep ('', Serial_print_DEC 120, Serial_print ''s) '']
       @ concat (replicate 14 sleep_body_events)
       @ [Serial_println ''Wake up !'']\<rparr>)))
         \<and> halts (trace ((power_on 0 0)\<lparr>trace :=
       [Serial_print ''Sleep ('', Serial_print_DEC 120, Serial_print ''s) '']
       @ concat (replicate 14 sleep_body_events)
       @ [Serial_println ''Wake up !'']\<rparr>)) = halts (trace (power_on 0 0)) + m"
    by (rule i4 [rule_format, OF run])
  from a b one wake reset bounded' run general link regular show ?thesis
    by (intro conjI)
qed

text \<open>
  Claim C2 as stated has exactly \<open>D / 8\<close> passes for every sleep request. With one tick
  during the first \<open>delay(100)\<close> of the loop (the fifth call of the request) and one in
  every halt, \<open>goToSleep 120\<close> returns after 14 halts.
\<close>

theorem goToSleep_120_with_early_tick:
  "goToSleep_irq (tick_at 5) 120 (power_on 0 0) =
     Some ((power_on 0 0)\<lparr>trace :=
       [Serial_print ''Sleep ('', Serial_print_DEC 120, Serial_print ''s) '']
       @ concat (replicate 14 sleep_body_events)
       @ [Serial_println ''Wake up !'']\<rparr>)
   \<and> map_option (halts \<circ> trace) (goToSleep_irq (tick_at 5) 120 (power_on 0 0)) = Some 14"
  by code_simp

subsection \<open>C5: a sleep request that is not a multiple of 8 seconds\<close>

text \<open>
  Claim C5, amended. For a non-negative duration \<open>D\<close>, a multiple of 8 or not, and any
  arrival of watchdog ticks, \<open>goToSleep D\<close> does exactly what
  \<open>goToSleep (8 * (D div 8))\<close> does: the remainder is dropped. It announces the period
  \<open>8 * (D div 8)\<close>; when it returns, the loop has ended with at least \<open>D div 8\<close> ticks
  counted, and apart from the announcement, the passes of the loop and the wake-up line
  nothing is printed: no error is reported. When the routine runs once in each halt and
  not while the processor is awake, it returns after exactly \<open>D div 8\<close> ticks and halts.
  When no call sees more than one tick and every halt ends with one, it returns after at
  most \<open>D div 8\<close> halts. The instance below takes \<open>D = 20\<close>.
\<close>

theorem goToSleep_irq_drops_remainder:
  assumes "0 \<le> sint D"
  shows
   "goToSleep_irq tk D s = goToSleep_irq tk (word_of_int (8 * (sint D div 8))) s
    \<and> announce_events D =
        [Serial_print ''Sleep ('', Serial_print_DEC (word_of_int (8 * (sint D div 8))),
         Serial_print ''s) '']
    \<and> (\<forall>s'. goToSleep_irq tk D s = Some s' \<longrightarrow>
          (\<exists>m s2. sleep_while_irq tk (signed_drop_bit 3 D) (goToSleep_enter_irq tk D s) = Some s2
             \<and> sint D div 8 \<le> sint (wdt_cpt s2)
             \<and> trace s' = trace s @ announce_events D @ concat (replicate m sleep_body_events)
                  @ [Serial_println ''Wake up !'']
             \<and> halts (trace s') = halts (trace s) + m))
    \<and> (\<exists>s2. sleep_while_irq one_tick_per_halt (signed_drop_bit 3 D)
                 (goToSleep_enter_irq one_tick_per_halt D s) = Some s2
          \<and> sint (wdt_cpt s2) = sint D div 8
          \<and> goToSleep_irq one_tick_per_halt D s = Some (goToSleep_exit_irq one_tick_per_halt s2)
          \<and> trace (goToSleep_exit_irq one_tick_per_halt s2) = trace s @ announce_events D
               @ concat (replicate (nat (sint D div 8)) sleep_body_events)
               @ [Serial_println ''Wake up !'']
          \<and> halts (trace (goToSleep_exit_irq one_tick_per_halt s2)) =
              halts (trace s) + nat (sint D div 8))
    \<and> ((\<forall>tr. tk tr \<le> 1) \<and> (\<forall>tr. tk (tr @ [Sleep_mode]) = 1) \<longrightarrow>
          (\<exists>s' m. goToSleep_irq tk D s = Some s'
             \<and> halts (trace s') = halts (trace s) + m \<and> int m \<le> sint D div 8))"
proof -
  have same: "goToSleep_irq tk D s = goToSleep_irq tk (word_of_int (8 * (sint D div 8))) s"
    by (simp only: goToSleep_irq_floor)
  have ann: "announce_events D =
        [Serial_print ''Sleep ('', Serial_print_DEC (word_of_int (8 * (sint D div 8))),
         Serial_print ''s) '']"
    by (rule announce_floor)
  have general: "\<forall>s'. goToSleep_irq tk D s = Some s' \<longrightarrow>
          (\<exists>m s2. sleep_while_irq tk (signed_drop_bit 3 D) (goToSleep_enter_irq tk D s) = Some s2
             \<and> sint D div 8 \<le> sint (wdt_cpt s2)
             \<and> trace s' = trace s @ announce_events D @ concat (replicate m sleep_body_events)
                  @ [Serial_println ''Wake up !'']
             \<and> halts (trace s') = halts (trace s) + m)"
  proof (intro allI impI)
    fix s'
    assume "goToSleep_irq tk D s = Some s'"
    then obtain m s2
      where a: "sleep_while_irq tk (signed_drop_bit 3 D) (goToSleep_enter_irq tk D s) = Some s2"
        and b: "sint D div 8 \<le> sint (wdt_cpt s2)"
        and c: "trace s2 = trace s @ announce_events D @ concat (replicate m sleep_body_events)"
        and e: "trace s' = trace s2 @ [Serial_println ''Wake up !'']"
        and g: "halts (trace s') = halts (trace s) + m"
      using goToSleep_irq_returned by blast
    from c e have "trace s' = trace s @ announce_events D @ concat (replicate m sleep_body_events)
                  @ [Serial_println ''Wake up !'']"
      by simp
    with a b g
    show "\<exists>m s2. sleep_while_irq tk (signed_drop_bit 3 D) (goToSleep_enter_irq tk D s) = Some s2
             \<and> sint D div 8 \<le> sint (wdt_cpt s2)
             \<and> trace s' = trace s @ announce_events D @ concat (replicate m sleep_body_events)
                  @ [Serial_println ''Wake up !'']
             \<and> halts (trace s') = halts (trace s) + m"
      by blast
  qed
  from goToSleep_irq_regular_run [OF assms] obtain s2
    where r1: "sleep_while_irq one_tick_per_halt (signed_drop_bit 3 D)
                 (goToSleep_enter_irq one_tick_per_halt D s) = Some s2"
      and r3: "sint (wdt_cpt s2) = sint D div 8"
      and r4: "trace s2 = trace s @ announce_events D
               @ concat (replicate (nat (sint D div 8)) sleep_body_events)"
      and r5: "goToSleep_irq one_tick_per_halt D s = Some (goToSleep_exit_irq one_tick_per_halt s2)"
      and r6: "trace (goToSleep_exit_irq one_tick_per_halt s2) = trace s2 @ [Serial_println ''Wake up !'']"
      and r7: "halts (trace (goToSleep_exit_irq one_tick_per_halt s2)) =
              halts (trace s) + nat (sint D div 8)"
    by blast
  from r4 r6 have r8: "trace (goToSleep_exit_irq one_tick_per_halt s2) = trace s @ announce_events D
               @ concat (replicate (nat (sint D div 8)) sleep_body_events)
               @ [Serial_println ''Wake up !'']"
    by simp
  from r1 r3 r5 r8 r7
  have regular: "\<exists>s2. sleep_while_irq one_tick_per_halt (signed_drop_bit 3 D)
                 (goToSleep_enter_irq one_tick_per_halt D s) = Some s2
          \<and> sint (wdt_cpt s2) = sint D div 8
          \<and> goToSleep_irq one_tick_per_halt D s = Some (goToSleep_exit_irq one_tick_per_halt s2)
          \<and> trace (goToSleep_exit_irq one_tick_per_halt s2) = trace s @ announce_events D
               @ concat (replicate (nat (sint D div 8)) sleep_body_events)
               @ [Serial_println ''Wake up !'']
          \<and> halts (trace (goToSleep_exit_irq one_tick_per_halt s2)) =
              halts (trace s) + nat (sint D div 8)"
    by (intro exI [where x = s2] conjI)
  have bounded: "(\<forall>tr. tk tr \<le> 1) \<and> (\<forall>tr. tk (tr @ [Sleep_mode]) = 1) \<longrightarrow>
          (\<exists>s' m. goToSleep_irq tk D s = Some s'
             \<and> halts (trace s') = halts (trace s) + m \<and> int m \<le> sint D div 8)"
  proof (intro impI, elim conjE)
    assume one: "\<forall>tr. tk tr \<le> 1" and wake: "\<forall>tr. tk (tr @ [Sleep_mode]) = 1"
    from one wake assms
    show "\<exists>s' m. goToSleep_irq tk D s = Some s'
             \<and> halts (trace s') = halts (trace s) + m \<and> int m \<le> sint D div 8"
      by (rule goToSleep_irq_returns)
  qed
  from same ann general regular bounded show ?thesis
    by (intro conjI)
qed

theorem goToSleep_irq_drops_remainder_witness:
  "0 \<le> sint (20 :: int16)
   \<and> (\<forall>tr. tick_at 5 tr \<le> 1) \<and> (\<forall>tr. tick_at 5 (tr @ [Sleep_mode]) = 1)
   \<and> goToSleep_irq (tick_at 5) 20 (power_on 0 0) = goToSleep_irq (tick_at 5) 16 (power_on 0 0)
   \<and> (\<exists>s' m. goToSleep_irq (tick_at 5) 20 (power_on 0 0) = Some s'
         \<and> halts (trace s') = m \<and> m \<le> 2)
   \<and> goToSleep_irq (tick_at 5) 20 (power_on 0 0) = Some ((power_on 0 0)\<lparr>trace :=
       [Serial_print ''Sleep ('', Serial_print_DEC 16, Serial_print ''s) '']
       @ sleep_body_events @ [Serial_println ''Wake up !'']\<rparr>)
   \<and> (\<exists>m s2. sleep_while_irq (tick_at 5) (signed_drop_bit 3 20)
             (goToSleep_enter_irq (tick_at 5) 20 (power_on 0 0)) = Some s2
         \<and> sint (20 :: int16) div 8 \<le> sint (wdt_cpt s2)
         \<and> trace ((power_on 0 0)\<lparr>trace :=
       [Serial_print ''Sleep ('', Serial_print_DEC 16, Serial_print ''s) '']
       @ sleep_body_events @ [Serial_println ''Wake up !'']\<rparr>) = trace (power_on 0 0) @ announce_events 20
              @ concat (replicate m sleep_body_events) @ [Serial_println ''Wake up !'']
         \<and> halts (trace ((power_on 0 0)\<lparr>trace :=
       [Serial_print ''Sleep ('', Serial_print_DEC 16, Serial_print ''s) '']
       @ sleep_body_events @ [Serial_println ''Wake up !'']\<rparr>)) = halts (trace (power_on 0 0)) + m)
   \<and> (\<exists>s2. goToSleep_irq one_tick_per_halt 20 (power_on 0 0) =
           Some (goToSleep_exit_irq one_tick_per_halt s2)
         \<and> sint (wdt_cpt s2) = 2
         \<and> halts (trace (goToSleep_exit_irq one_tick_per_halt s2)) = 2)"
proof -
  let ?p = "power_on 0 0"
  have a: "0 \<le> sint (20 :: int16)"
    by simp
  have one: "\<forall>tr. tick_at 5 tr \<le> 1"
    by (intro allI tick_at_le)
  have wake: "\<forall>tr. tick_at 5 (tr @ [Sleep_mode]) = 1"
    by (intro allI tick_at_halt)
  have d: "halts (trace ?p) = 0"
    by (simp add: power_on_def halts_Nil)
  have e: "(word_of_int (8 * (sint (20 :: int16) div 8)) :: int16) = 16"
    by simp
  note inst = goToSleep_irq_drops_remainder [OF a, where tk = "tick_at 5" and s = ?p]
  note i1 = inst [THEN conjunct1]
  note i4 = inst [THEN conjunct2, THEN conjunct2, THEN conjunct2, THEN conjunct1]
  note i5 = inst [THEN conjunct2, THEN conjunct2, THEN conjunct2, THEN conjunct2]
  from i1 have same: "goToSleep_irq (tick_at 5) 20 ?p = goToSleep_irq (tick_at 5) 16 ?p"
    by (simp only: e)
  from one wake have "\<exists>s' m. goToSleep_irq (tick_at 5) 20 ?p = Some s'
             \<and> halts (trace s') = halts (trace ?p) + m \<and> int m \<le> sint (20 :: int16) div 8"
    by (intro i5 [rule_format] conjI)
  then have bounded: "\<exists>s' m. goToSleep_irq (tick_at 5) 20 ?p = Some s'
         \<and> halts (trace s') = m \<and> m \<le> 2"
    by (simp add: d)
  have regular: "\<exists>s2. goToSleep_irq one_tick_per_halt 20 ?p =
           Some (goToSleep_exit_irq one_tick_per_halt s2)
         \<and> sint (wdt_cpt s2) = 2
         \<and> halts (trace (goToSleep_exit_irq one_tick_per_halt s2)) = 2"
  proof -
    from i4 obtain s2 where all: "sleep_while_irq one_tick_per_halt (signed_drop_bit 3 20)
                 (goToSleep_enter_irq one_tick_per_halt 20 ?p) = Some s2
          \<and> sint (wdt_cpt s2) = sint (20 :: int16) div 8
          \<and> goToSleep_irq one_tick_per_halt 20 ?p = Some (goToSleep_exit_irq one_tick_per_halt s2)
          \<and> trace (goToSleep_exit_irq one_tick_per_halt s2) = trace ?p @ announce_events 20
               @ concat (replicate (nat (sint (20 :: int16) div 8)) sleep_body_events)
               @ [Serial_println ''Wake up !'']
          \<and> halts (trace (goToSleep_exit_irq one_tick_per_halt s2)) =
              halts (trace ?p) + nat (sint (20 :: int16) div 8)" ..
    note r3 = all [THEN conjunct2, THEN conjunct1]
    note r5 = all [THEN conjunct2, THEN conjunct2, THEN conjunct1]
    note r7 = all [THEN conjunct2, THEN conjunct2, THEN conjunct2, THEN conjunct2]
    from r3 have r3': "sint (wdt_cpt s2) = 2"
      by simp
    from r7 have r7': "halts (trace (goToSleep_exit_irq one_tick_per_halt s2)) = 2"
      by (simp add: d)
    from r5 r3' r7' show ?thesis
      by (intro exI [where x = s2] conjI)
  qed
  have run: "goToSleep_irq (tick_at 5) 20 (power_on 0 0) = Some ((power_on 0 0)\<lparr>trace :=
       [Serial_print ''Sleep ('', Serial_print_DEC 16, Serial_print ''s) '']
       @ sleep_body_events @ [Serial_println ''Wake up !'']\<rparr>)"
    by code_simp
  note i3 = inst [THEN conjunct2, THEN conjunct2, THEN conjunct1]
  have general: "\<exists>m s2. sleep_while_irq (tick_at 5) (signed_drop_bit 3 20)
             (goToSleep_enter_irq (tick_at 5) 20 (power_on 0 0)) = Some s2
         \<and> sint (20 :: int16) div 8 \<le> sint (wdt_cpt s2)
         \<and> trace ((power_on 0 0)\<lparr>trace :=
       [Serial_print ''Sleep ('', Serial_print_DEC 16, Serial_print ''s) '']
       @ sleep_body_events @ [Serial_println ''Wake up !'']\<rparr>) = trace (power_on 0 0) @ announce_events 20
              @ concat (replicate m sleep_body_events) @ [Serial_println ''Wake up !'']
         \<and> halts (trace ((power_on 0 0)\<lparr>trace :=
       [Serial_print ''Sleep ('', Serial_print_DEC 16, Serial_print ''s) '']
       @ sleep_body_events @ [Serial_println ''Wake up !'']\<rparr>)) = halts (trace (power_on 0 0)) + m"
    by (rule i3 [rule_format, OF run])
  from a one wake same bounded run general regular show ?thesis
    by (intro conjI)
qed

text \<open>
  Claim C5 as stated has exactly \<open>D div 8\<close> ticks waited for. With one tick during the
  first \<open>delay(100)\<close> of the loop and one in the halt, the loop of \<open>goToSleep 12\<close> ends
  after one pass with 2 ticks counted, for a request of \<open>12 div 8 = 1\<close>.
\<close>

theorem goToSleep_12_with_early_tick:
  "sleep_while_irq (tick_at 5) (signed_drop_bit 3 12)
       (goToSleep_enter_irq (tick_at 5) 12 (power_on 0 0)) =
     Some ((power_on 0 0)\<lparr>wdt_cpt := 2, trace :=
       [Serial_print ''Sleep ('', Serial_print_DEC 8, Serial_print ''s) ''] @ sleep_body_events\<rparr>)
   \<and> sint (12 :: int16) div 8 = 1"
  by code_simp

subsection \<open>Packing two readings into four bytes\<close>

lemma hi_byte: "(ucast (signed_drop_bit 8 (w :: int16)) :: byte_t) = ucast (drop_bit 8 w)"
  by (rule bit_word_eqI) (auto simp add: bit_simps)

lemma lo_byte: "(ucast ((w :: int16) AND 0xFF) :: byte_t) = ucast w"
proof -
  have "(0xFF :: int16) = mask 8"
    by (simp add: mask_eq_exp_minus_1)
  then have "w AND 0xFF = take_bit 8 w"
    by (simp only: take_bit_eq_mask)
  moreover have "(ucast (take_bit 8 w) :: byte_t) = ucast w"
    by (rule bit_word_eqI) (auto simp add: bit_simps)
  ultimately show ?thesis
    by (simp only:)
qed

lemma uint_hi_byte: "uint (ucast (drop_bit 8 (w :: int16)) :: byte_t) = uint w div 256"
proof -
  have "uint w < 65536"
    using uint_lt2p [of w] by simp
  then have "uint w div 256 < 256"
    by simp
  moreover have "0 \<le> uint w div 256"
    by (simp add: pos_imp_zdiv_nonneg_iff)
  ultimately have "take_bit 8 (uint w div 256) = uint w div 256"
    by (simp add: take_bit_int_eq_self)
  then show ?thesis
    by (simp add: unsigned_ucast_eq unsigned_drop_bit_eq drop_bit_eq_div take_bit_eq_mod uint_div_distrib)
qed

lemma uint_lo_byte: "uint (ucast (w :: int16) :: byte_t) = uint w mod 256"
  by (simp add: unsigned_ucast_eq take_bit_eq_mod)

lemma uint_sint16: "uint (w :: int16) = sint w mod 65536"
  by (simp add: uint_sint take_bit_eq_mod)

lemma hi_byte_of_int: "(ucast (signed_drop_bit 8 (w :: int16)) :: byte_t) = word_of_int (uint w div 256)"
proof -
  have "uint w < 65536"
    using uint_lt2p [of w] by simp
  then have "uint w div 256 < 256"
    by simp
  moreover have "0 \<le> uint w div 256"
    by (simp add: pos_imp_zdiv_nonneg_iff)
  ultimately have "uint w div 256 mod 256 = uint w div 256"
    by simp
  then have "uint (ucast (drop_bit 8 w) :: byte_t) = uint (word_of_int (uint w div 256) :: byte_t)"
    using uint_hi_byte [of w] by (simp add: uint_word_of_int take_bit_eq_mod)
  then have "(ucast (drop_bit 8 w) :: byte_t) = word_of_int (uint w div 256)"
    by (rule unsigned_word_eqI)
  then show ?thesis
    by (simp only: hi_byte)
qed

lemma lo_byte_of_int: "(ucast ((w :: int16) AND 0xFF) :: byte_t) = word_of_int (uint w mod 256)"
proof -
  have "uint (ucast w :: byte_t) = uint (word_of_int (uint w mod 256) :: byte_t)"
    using uint_lo_byte [of w] by (simp add: uint_word_of_int take_bit_eq_mod)
  then have "(ucast w :: byte_t) = word_of_int (uint w mod 256)"
    by (rule unsigned_word_eqI)
  then show ?thesis
    by (simp only: lo_byte)
qed

lemma loraSendValues_packs:
  "loraSendValues en gas temp port s = ttn_sendBytes en (payload_spec gas temp) 4 port s"
  by (simp only: loraSendValues_def Let_def payload_spec_def hi_byte_of_int lo_byte_of_int)

lemma uint_payload_spec:
  "map uint (payload_spec g t) =
     [sint g mod 65536 div 256, sint g mod 65536 mod 256,
      sint t mod 65536 div 256, sint t mod 65536 mod 256]"
proof -
  have a: "uint (word_of_int (uint w div 256) :: byte_t) = uint w div 256" for w :: int16
    using uint_hi_byte [of w] by (simp only: hi_byte_of_int [symmetric] hi_byte)
  have b: "uint (word_of_int (uint w mod 256) :: byte_t) = uint w mod 256" for w :: int16
    using uint_lo_byte [of w] by (simp only: lo_byte_of_int [symmetric] lo_byte)
  show ?thesis
    by (simp only: payload_spec_def list.map a b) (simp only: uint_sint16)
qed

lemma uint_of_nat_10bit: "n \<le> 1023 \<Longrightarrow> uint (of_nat n :: int16) = int n"
  by (simp add: uint_nat unat_of_nat)

lemma byte_of_nat_10bit:
  assumes "n \<le> 1023"
  shows "(word_of_int (uint (of_nat n :: int16) div 256) :: byte_t) = of_nat (n div 256)"
    and "(word_of_int (uint (of_nat n :: int16) mod 256) :: byte_t) = of_nat (n mod 256)"
proof -
  have "int n div 256 = int (n div 256)" and "int n mod 256 = int (n mod 256)"
    by (simp_all add: zdiv_int zmod_int)
  then show "(word_of_int (uint (of_nat n :: int16) div 256) :: byte_t) = of_nat (n div 256)"
    and "(word_of_int (uint (of_nat n :: int16) mod 256) :: byte_t) = of_nat (n mod 256)"
    using assms by (simp_all only: uint_of_nat_10bit of_int_of_nat_eq)
qed

lemma payload_spec_10bit:
  assumes "g \<le> 1023" and "t \<le> 1023"
  shows "payload_spec (of_nat g) (of_nat t) =
    [of_nat (g div 256), of_nat (g mod 256), of_nat (t div 256), of_nat (t mod 256)]"
  using assms by (simp only: payload_spec_def byte_of_nat_10bit)

lemma ttn_sendBytes_eq:
  "ttn_sendBytes en data len port s =
     (sendBytes_ret en (trace s @ [TTN_sendBytes data len port]),
      s\<lparr>trace := trace s @ [TTN_sendBytes data len port]\<rparr>)"
  by (simp add: ttn_sendBytes_def emit_def Let_def)

subsection \<open>C1: the payload of 10-bit readings\<close>

text \<open>
  Claim C1. For sensor values \<open>g\<close> and \<open>t\<close> between 0 and 1023,
  \<open>loraSendValues g t port\<close> hands the radio exactly 4 bytes, \<open>g div 256\<close>,
  \<open>g mod 256\<close>, \<open>t div 256\<close>, \<open>t mod 256\<close> (that is \<open>g >> 8\<close>, \<open>g & 0xFF\<close>,
  \<open>t >> 8\<close>, \<open>t & 0xFF\<close>), with length 4 on the given port. For gas 300 and
  temperature 900 the bytes are 0x01, 0x2C, 0x03, 0x84.
\<close>

theorem loraSendValues_payload_10bit:
  assumes "g \<le> 1023" and "t \<le> 1023"
  shows "let data = [of_nat (g div 256), of_nat (g mod 256),
                     of_nat (t div 256), of_nat (t mod 256)] :: byte_t list
         in loraSendValues en (of_nat g) (of_nat t) port s =
              (sendBytes_ret en (trace s @ [TTN_sendBytes data 4 port]),
               s\<lparr>trace := trace s @ [TTN_sendBytes data 4 port]\<rparr>)
          \<and> length data = 4
          \<and> map unat data = [g div 256, g mod 256, t div 256, t mod 256]"
proof -
  have small: "n div 256 < 256" "n mod 256 < 256" if "n \<le> 1023" for n :: nat
    using that by simp_all
  have un: "unat (of_nat n :: byte_t) = n" if "n < 256" for n
    using that by (simp add: unat_of_nat)
  have "map unat [of_nat (g div 256), of_nat (g mod 256),
                     of_nat (t div 256), of_nat (t mod 256) :: byte_t]
       = [g div 256, g mod 256, t div 256, t mod 256]"
    using small [OF assms(1)] small [OF assms(2)] by (simp add: un)
  moreover have "loraSendValues en (of_nat g) (of_nat t) port s =
     ttn_sendBytes en [of_nat (g div 256), of_nat (g mod 256),
                     of_nat (t div 256), of_nat (t mod 256)] 4 port s"
    by (simp only: loraSendValues_packs payload_spec_10bit [OF assms])
  ultimately show ?thesis
    by (simp only: Let_def ttn_sendBytes_eq) simp
qed

theorem loraSendValues_payload_10bit_witness:
  "(300 :: nat) \<le> 1023 \<and> (900 :: nat) \<le> 1023
   \<and> loraSendValues (bench_env False False) 300 900 1 (power_on 0 0) =
       (1, (power_on 0 0)\<lparr>trace := [TTN_sendBytes [0x01, 0x2C, 0x03, 0x84] 4 1]\<rparr>)"
proof -
  have a: "(300 :: nat) \<le> 1023" and b: "(900 :: nat) \<le> 1023"
    by simp_all
  note inst = loraSendValues_payload_10bit [OF a b, of "bench_env False False" 1 "power_on 0 0",
      unfolded Let_def]
  from inst have "loraSendValues (bench_env False False) (of_nat 300) (of_nat 900) 1 (power_on 0 0) =
      (sendBytes_ret (bench_env False False)
         (trace (power_on 0 0) @ [TTN_sendBytes [of_nat (300 div 256), of_nat (300 mod 256),
            of_nat (900 div 256), of_nat (900 mod 256)] 4 1]),
       (power_on 0 0)\<lparr>trace := trace (power_on 0 0) @ [TTN_sendBytes [of_nat (300 div 256),
            of_nat (300 mod 256), of_nat (900 div 256), of_nat (900 mod 256)] 4 1]\<rparr>)"
    by blast
  then show ?thesis
    by (simp add: bench_env_def power_on_def)
qed

subsection \<open>C7: sendValues is packing followed by sendBytes\<close>

text \<open>
  Claim C7. For all \<open>gas\<close>, \<open>temp\<close> and \<open>port\<close>, \<open>loraSendValues\<close> does what
  \<open>loraSendBytes\<close> does on the 4 bytes of the specification's payload with length 4 on
  that port: the same call of the radio library, and the status that call returns,
  unchanged.
\<close>

theorem loraSendValues_refines_sendBytes:
  "loraSendValues en gas temp port s = loraSendBytes en (payload_spec gas temp) 4 port s
   \<and> loraSendBytes en (payload_spec gas temp) 4 port s =
       (sendBytes_ret en (trace s @ [TTN_sendBytes (payload_spec gas temp) 4 port]),
        s\<lparr>trace := trace s @ [TTN_sendBytes (payload_spec gas temp) 4 port]\<rparr>)
   \<and> length (payload_spec gas temp) = 4"
  by (simp add: loraSendValues_packs loraSendBytes_def ttn_sendBytes_eq) (simp add: payload_spec_def)

subsection \<open>C10: readings outside the 10-bit range\<close>

text \<open>
  Claim C10. For every pair of \<open>int\<close> arguments, in the range 0 to 1023 or not,
  \<open>loraSendValues\<close> sends 4 bytes that are the bytes of each value reduced modulo
  \<open>2^16\<close> (each byte modulo 256), and returns the radio's status: there is no error
  path, an out-of-range value is truncated silently.
\<close>

theorem loraSendValues_any_int:
  "\<exists>data. loraSendValues en g t port s =
             (sendBytes_ret en (trace s @ [TTN_sendBytes data 4 port]),
              s\<lparr>trace := trace s @ [TTN_sendBytes data 4 port]\<rparr>)
         \<and> map uint data =
             [sint g mod 65536 div 256 mod 256, sint g mod 65536 mod 256,
              sint t mod 65536 div 256 mod 256, sint t mod 65536 mod 256]"
proof -
  have hi: "k mod 65536 div 256 mod 256 = k mod 65536 div 256" for k :: int
  proof -
    have "0 \<le> k mod 65536" and "k mod 65536 < 65536"
      by simp_all
    then have "0 \<le> k mod 65536 div 256" and "k mod 65536 div 256 < 256"
      by (simp_all add: pos_imp_zdiv_nonneg_iff)
    then show ?thesis
      by simp
  qed
  have "map uint (payload_spec g t) =
             [sint g mod 65536 div 256 mod 256, sint g mod 65536 mod 256,
              sint t mod 65536 div 256 mod 256, sint t mod 65536 mod 256]"
    by (simp only: uint_payload_spec hi)
  moreover have "loraSendValues en g t port s =
             (sendBytes_ret en (trace s @ [TTN_sendBytes (payload_spec g t) 4 port]),
              s\<lparr>trace := trace s @ [TTN_sendBytes (payload_spec g t) 4 port]\<rparr>)"
    by (simp only: loraSendValues_packs ttn_sendBytes_eq)
  ultimately show ?thesis
    by (intro exI [where x = "payload_spec g t"] conjI)
qed

subsection \<open>Sensor reads\<close>

lemma getGasValue_eq:
  "getGasValue en s =
     (gas_sample en (trace s), s\<lparr>trace := trace s @ gas_events (gas_sample en (trace s))\<rparr>)"
  by (simp add: getGasValue_def analogRead_def emit_def Let_def gas_events_def gas_sample_def)

lemma getTempValue_eq:
  "getTempValue en s =
     (temp_sample en (trace s), s\<lparr>trace := trace s @ temp_events (temp_sample en (trace s))\<rparr>)"
  by (simp add: getTempValue_def analogRead_def emit_def Let_def temp_events_def temp_sample_def)

subsection \<open>C9: the two sensor reads\<close>

text \<open>
  Claim C9. \<open>getGasValue\<close> selects the INTERNAL (1.1 V) reference and then samples the
  gas pin; \<open>getTempValue\<close> selects the DEFAULT reference and then samples the
  temperature pin. Each takes exactly one sample and returns that sample itself, with no
  filtering, averaging or calibration; the value is also printed.
\<close>

theorem sensor_reads_are_single_raw_samples:
  "getGasValue en s =
     (analogRead_val en (trace s @ [AnalogReference INTERNAL, AnalogRead gas_sensor_pin]),
      s\<lparr>trace := trace s @
         [AnalogReference INTERNAL, AnalogRead gas_sensor_pin, Serial_print ''Gas value = '',
          Serial_print_DEC
            (analogRead_val en (trace s @ [AnalogReference INTERNAL, AnalogRead gas_sensor_pin])),
          Serial_println ''/1023'']\<rparr>)
   \<and> getTempValue en s =
     (analogRead_val en (trace s @ [AnalogReference DEFAULT, AnalogRead temp_sensor_pin]),
      s\<lparr>trace := trace s @
         [AnalogReference DEFAULT, AnalogRead temp_sensor_pin,
          Serial_print ''Temperature value = '',
          Serial_print_DEC
            (analogRead_val en (trace s @ [AnalogReference DEFAULT, AnalogRead temp_sensor_pin])),
          Serial_println ''/1023'']\<rparr>)
   \<and> samples (trace (snd (getGasValue en s))) = samples (trace s) @ [AnalogRead gas_sensor_pin]
   \<and> samples (trace (snd (getTempValue en s))) = samples (trace s) @ [AnalogRead temp_sensor_pin]"
  by (simp add: getGasValue_eq getTempValue_eq gas_events_def temp_events_def gas_sample_def
      temp_sample_def samples_def)

subsection \<open>Bring-up\<close>

lemma timeoutHandler_eq:
  "timeoutHandler s =
     s\<lparr>timer2_running := False,
       trace := trace s @ [Serial_println (''Timeout !'' @ [CHR 0x0A]), MsTimer2_stop]\<rparr>"
  by (simp add: timeoutHandler_def MsTimer2stop_def emit_def Let_def)

lemma loraInit_eq:
  "loraInit en s =
     s\<lparr>timer2_running := False, trace := trace s @ loraInit_events (showStatus_timeout en)\<rparr>"
  by (simp add: loraInit_def resetRN2483_def MsTimer2start_def MsTimer2stop_def
      ttn_showStatus_def timeoutHandler_eq delay_def emit_def Let_def loraInit_events_def)

lemma setupWatchdog_eq:
  "setupWatchdog s =
     s\<lparr>MCUSR := MCUSR s AND NOT 8, WDTCSR := 97,
       trace := trace s @ [Cli, Write_MCUSR (MCUSR s AND NOT 8), Write_WDTCSR (WDTCSR s OR 24),
         Write_WDTCSR 33, Write_WDTCSR 97, Sei]\<rparr>"
  by (simp add: setupWatchdog_def emit_def Let_def WDRF_def WDCE_def WDE_def WDP0_def WDP3_def
      WDIE_def)

lemma setup_fn_eq:
  "setup_fn en s =
     s\<lparr>f_wdt := 0, MCUSR := MCUSR s AND NOT 8, WDTCSR := 97, timer2_running := False,
       trace := trace s @ setup_events (showStatus_timeout en) (MCUSR s) (WDTCSR s)\<rparr>"
  by (simp add: setup_fn_def setupWatchdog_eq loraInit_eq loraJoin_def emit_def Let_def
      setup_events_def)

subsection \<open>C8: the timeout handler\<close>

text \<open>
  Claim C8. \<open>timeoutHandler\<close> prints the timeout line and stops the MsTimer2 timer,
  and changes nothing else: the globals and the watchdog registers are untouched. When the
  timeout fires during the status query of \<open>loraInit\<close>, the bring-up goes on as it does
  without it: \<open>loraInit\<close> stops the timer and returns, \<open>setup\<close> joins the network,
  and the state after \<open>setup\<close> differs only by the two calls of the handler in the
  trace.
\<close>

theorem timeoutHandler_logs_and_disarms_only:
  "timeoutHandler s =
     s\<lparr>timer2_running := False,
       trace := trace s @ [Serial_println (''Timeout !'' @ [CHR 0x0A]), MsTimer2_stop]\<rparr>
   \<and> loraInit (en\<lparr>showStatus_timeout := False\<rparr>) s =
     s\<lparr>timer2_running := False,
       trace := trace s @
         [PinMode RST_PIN OUTPUT, DigitalWrite RST_PIN LOW, Delay 100,
          DigitalWrite RST_PIN HIGH, Delay 100, LoraSerial_begin 57600, MsTimer2_start,
          TTN_showStatus, MsTimer2_stop]\<rparr>
   \<and> loraInit (en\<lparr>showStatus_timeout := True\<rparr>) s =
     s\<lparr>timer2_running := False,
       trace := trace s @
         [PinMode RST_PIN OUTPUT, DigitalWrite RST_PIN LOW, Delay 100,
          DigitalWrite RST_PIN HIGH, Delay 100, LoraSerial_begin 57600, MsTimer2_start,
          TTN_showStatus, Serial_println (''Timeout !'' @ [CHR 0x0A]), MsTimer2_stop,
          MsTimer2_stop]\<rparr>
   \<and> (\<exists>before after.
         trace (setup_fn (en\<lparr>showStatus_timeout := False\<rparr>) s) = before @ after
       \<and> trace (setup_fn (en\<lparr>showStatus_timeout := True\<rparr>) s) =
           before @ [Serial_println (''Timeout !'' @ [CHR 0x0A]), MsTimer2_stop] @ after
       \<and> after = [MsTimer2_stop, TTN_personalize devAddr nwkSKey appSKey])
   \<and> (setup_fn (en\<lparr>showStatus_timeout := True\<rparr>) s)\<lparr>trace := []\<rparr> =
       (setup_fn (en\<lparr>showStatus_timeout := False\<rparr>) s)\<lparr>trace := []\<rparr>"
proof -
  let ?before = "trace s @
     [Serial_begin 9600, PinMode HEAT_PIN OUTPUT, MsTimer2_set 15000,
      Cli, Write_MCUSR (MCUSR s AND NOT 8), Write_WDTCSR (WDTCSR s OR 24), Write_WDTCSR 33,
      Write_WDTCSR 97, Sei,
      PinMode RST_PIN OUTPUT, DigitalWrite RST_PIN LOW, Delay 100, DigitalWrite RST_PIN HIGH,
      Delay 100, LoraSerial_begin 57600, MsTimer2_start, TTN_showStatus]"
  let ?after = "[MsTimer2_stop, TTN_personalize devAddr nwkSKey appSKey]"
  have quiet: "trace (setup_fn (en\<lparr>showStatus_timeout := False\<rparr>) s) = ?before @ ?after"
    by (simp add: setup_fn_eq setup_events_def loraInit_events_def)
  have fired: "trace (setup_fn (en\<lparr>showStatus_timeout := True\<rparr>) s) =
      ?before @ [Serial_println (''Timeout !'' @ [CHR 0x0A]), MsTimer2_stop] @ ?after"
    by (simp add: setup_fn_eq setup_events_def loraInit_events_def)
  from quiet fired have ex: "\<exists>before after.
         trace (setup_fn (en\<lparr>showStatus_timeout := False\<rparr>) s) = before @ after
       \<and> trace (setup_fn (en\<lparr>showStatus_timeout := True\<rparr>) s) =
           before @ [Serial_println (''Timeout !'' @ [CHR 0x0A]), MsTimer2_stop] @ after
       \<and> after = [MsTimer2_stop, TTN_personalize devAddr nwkSKey appSKey]"
    by (intro exI [where x = ?before] exI [where x = ?after] conjI refl)
  have rest: "(setup_fn (en\<lparr>showStatus_timeout := True\<rparr>) s)\<lparr>trace := []\<rparr> =
       (setup_fn (en\<lparr>showStatus_timeout := False\<rparr>) s)\<lparr>trace := []\<rparr>"
    by (simp add: setup_fn_eq)
  have handler: "timeoutHandler s =
     s\<lparr>timer2_running := False,
       trace := trace s @ [Serial_println (''Timeout !'' @ [CHR 0x0A]), MsTimer2_stop]\<rparr>"
    by (rule timeoutHandler_eq)
  have init: "loraInit (en\<lparr>showStatus_timeout := False\<rparr>) s =
     s\<lparr>timer2_running := False,
       trace := trace s @
         [PinMode RST_PIN OUTPUT, DigitalWrite RST_PIN LOW, Delay 100,
          DigitalWrite RST_PIN HIGH, Delay 100, LoraSerial_begin 57600, MsTimer2_start,
          TTN_showStatus, MsTimer2_stop]\<rparr>"
    "loraInit (en\<lparr>showStatus_timeout := True\<rparr>) s =
     s\<lparr>timer2_running := False,
       trace := trace s @
         [PinMode RST_PIN OUTPUT, DigitalWrite RST_PIN LOW, Delay 100,
          DigitalWrite RST_PIN HIGH, Delay 100, LoraSerial_begin 57600, MsTimer2_start,
          TTN_showStatus, Serial_println (''Timeout !'' @ [CHR 0x0A]), MsTimer2_stop,
          MsTimer2_stop]\<rparr>"
    by (simp_all add: loraInit_eq loraInit_events_def)
  from handler init ex rest show ?thesis
    by (intro conjI)
qed

subsection \<open>One pass of the cycle, and many\<close>

lemma heat_5_eq: "heat 5 s = s\<lparr>trace := trace s @ heat_events\<rparr>"
  by (simp add: heat_def delay_def emit_def Let_def heat_events_def)

lemma read_sensors_eq:
  "read_sensors en s =
     (if eval_right_to_left en
      then (let t = temp_sample en (trace s); g = gas_sample en (trace s @ temp_events t)
            in ((g, t), s\<lparr>trace := trace s @ temp_events t @ gas_events g\<rparr>))
      else (let g = gas_sample en (trace s); t = temp_sample en (trace s @ gas_events g)
            in ((g, t), s\<lparr>trace := trace s @ gas_events g @ temp_events t\<rparr>)))"
  by (simp add: read_sensors_def getGasValue_eq getTempValue_eq Let_def)

lemma loop_transmit_eq:
  "loop_transmit en s =
     (let (g, t) = cycle_readings en (trace s);
          tr = trace s @ [Delay 100] @ heat_events @ sampling_events en g t
               @ [TTN_sendBytes (payload_spec g t) 4 1]
      in (sendBytes_ret en tr, s\<lparr>trace := tr\<rparr>))"
  by (simp add: loop_transmit_def delay_def emit_def heat_5_eq read_sensors_eq Let_def
      loraSendValues_packs ttn_sendBytes_eq cycle_readings_def sampling_events_def)

lemma loop_via_transmit: "loop en s = goToSleep 120 (snd (loop_transmit en s))"
  by (simp add: loop_def loop_transmit_def Let_def split_beta)

lemma loop_eq:
  "loop en s = s\<lparr>wdt_cpt := 0, trace := trace s @ cycle_events en (trace s)\<rparr>"
  by (simp add: loop_via_transmit loop_transmit_eq goToSleep_eq cycle_events_def Let_def split_beta)

lemma cycles_Suc: "cycles en (Suc n) s = loop en (cycles en n s)"
  by (simp add: cycles_def)

lemma trace_cycles: "trace (cycles en n s) = trace s @ cycles_events en (trace s) n"
proof (induction n)
  case 0
  show ?case
    by (simp add: cycles_def)
next
  case (Suc n)
  then show ?case
    by (simp add: cycles_Suc loop_eq Let_def)
qed

lemma filter_iterations:
  "filter P xs = [] \<Longrightarrow> filter P (concat (replicate k xs)) = []"
  by (induction k) simp_all

lemma startup_free_sleep: "filter is_startup (goToSleep_events D) = []"
proof -
  have "filter is_startup sleep_body_events = []"
    by (simp add: sleep_body_events_def)
  then have "filter is_startup (concat (replicate (nat (sint D div 8)) sleep_body_events)) = []"
    by (rule filter_iterations)
  then show ?thesis
    by (simp add: goToSleep_events_def)
qed

lemma transmission_free_sleep: "filter is_transmission (goToSleep_events D) = []"
proof -
  have "filter is_transmission sleep_body_events = []"
    by (simp add: sleep_body_events_def)
  then have "filter is_transmission (concat (replicate (nat (sint D div 8)) sleep_body_events)) = []"
    by (rule filter_iterations)
  then show ?thesis
    by (simp add: goToSleep_events_def)
qed

lemma startup_free_cycle: "filter is_startup (cycle_events en tr) = []"
  by (simp add: cycle_events_def split_beta Let_def heat_events_def sampling_events_def
      gas_events_def temp_events_def startup_free_sleep HEAT_PIN_def RST_PIN_def)

lemma one_transmission_cycle: "length (filter is_transmission (cycle_events en tr)) = 1"
  by (simp add: cycle_events_def split_beta Let_def heat_events_def sampling_events_def
      gas_events_def temp_events_def transmission_free_sleep)


lemma startup_free_cycles: "filter is_startup (cycles_events en tr n) = []"
  by (induction n) (simp_all add: Let_def startup_free_cycle)

lemma transmissions_cycles: "length (filter is_transmission (cycles_events en tr n)) = n"
  by (induction n) (simp_all add: Let_def one_transmission_cycle)





lemma count_filtered_out: "filter P xs = [] \<Longrightarrow> P e \<Longrightarrow> count_list xs e = 0"
  by (induction xs) (auto split: if_splits)

subsection \<open>C3: the status of the transmission is not looked at\<close>


subsection \<open>C4: the phases of one pass of the cycle\<close>



subsection \<open>C6: the start-up runs once, before the cycle\<close>

text \<open>
  Claim C6. From power-on, \<open>setup\<close> makes the calls listed below, among them the heater
  pin direction, the watchdog registers, the bring-up of the radio and, last, the join; it
  makes no transmission. Whatever the number of passes of \<open>loop\<close> that follow, their
  calls contain no start-up call and one transmission per pass, so every transmission
  comes after the join, and the status query, the serial link of the radio, the heater
  pin direction, the arming of the watchdog and the join each occur exactly once.
\<close>

theorem startup_once_before_the_cycle:
  "trace (setup_fn en (power_on m w)) =
     [Serial_begin 9600, PinMode HEAT_PIN OUTPUT, MsTimer2_set 15000,
      Cli, Write_MCUSR (m AND NOT 8), Write_WDTCSR (w OR 24), Write_WDTCSR 33,
      Write_WDTCSR 97, Sei,
      PinMode RST_PIN OUTPUT, DigitalWrite RST_PIN LOW, Delay 100, DigitalWrite RST_PIN HIGH,
      Delay 100, LoraSerial_begin 57600, MsTimer2_start, TTN_showStatus]
     @ (if showStatus_timeout en
        then [Serial_println (''Timeout !'' @ [CHR 0x0A]), MsTimer2_stop] else [])
     @ [MsTimer2_stop, TTN_personalize devAddr nwkSKey appSKey]
   \<and> filter is_transmission (trace (setup_fn en (power_on m w))) = []
   \<and> (\<exists>cyc. trace (run en n (power_on m w)) = trace (setup_fn en (power_on m w)) @ cyc
         \<and> filter is_startup cyc = []
         \<and> length (filter is_transmission cyc) = n)
   \<and> count_list (trace (run en n (power_on m w))) TTN_showStatus = 1
   \<and> count_list (trace (run en n (power_on m w))) (LoraSerial_begin 57600) = 1
   \<and> count_list (trace (run en n (power_on m w))) (PinMode HEAT_PIN OUTPUT) = 1
   \<and> count_list (trace (run en n (power_on m w))) (Write_WDTCSR 97) = 1
   \<and> count_list (trace (run en n (power_on m w))) (TTN_personalize devAddr nwkSKey appSKey) = 1"
proof -
  let ?s = "setup_fn en (power_on m w)"
  let ?cyc = "cycles_events en (trace ?s) n"
  have tr: "trace ?s =
     [Serial_begin 9600, PinMode HEAT_PIN OUTPUT, MsTimer2_set 15000,
      Cli, Write_MCUSR (m AND NOT 8), Write_WDTCSR (w OR 24), Write_WDTCSR 33,
      Write_WDTCSR 97, Sei,
      PinMode RST_PIN OUTPUT, DigitalWrite RST_PIN LOW, Delay 100, DigitalWrite RST_PIN HIGH,
      Delay 100, LoraSerial_begin 57600, MsTimer2_start, TTN_showStatus]
     @ (if showStatus_timeout en
        then [Serial_println (''Timeout !'' @ [CHR 0x0A]), MsTimer2_stop] else [])
     @ [MsTimer2_stop, TTN_personalize devAddr nwkSKey appSKey]"
    by (simp add: setup_fn_eq setup_events_def loraInit_events_def power_on_def)
  have notx: "filter is_transmission (trace ?s) = []"
    unfolding tr by simp
  have run: "trace (run en n (power_on m w)) = trace ?s @ ?cyc"
    by (simp add: run_def trace_cycles)
  have free: "filter is_startup ?cyc = []"
    by (rule startup_free_cycles)
  have ntx: "length (filter is_transmission ?cyc) = n"
    by (rule transmissions_cycles)
  have zero: "count_list ?cyc e = 0" if "is_startup e" for e
    using free that by (rule count_filtered_out)
  have c1: "count_list (trace (run en n (power_on m w))) TTN_showStatus = 1"
    unfolding run by (simp add: zero) (simp add: tr)
  have c2: "count_list (trace (run en n (power_on m w))) (LoraSerial_begin 57600) = 1"
    unfolding run by (simp add: zero) (simp add: tr)
  have c3: "count_list (trace (run en n (power_on m w))) (PinMode HEAT_PIN OUTPUT) = 1"
    unfolding run by (simp add: zero) (simp add: tr HEAT_PIN_def RST_PIN_def)
  have "(24 :: byte_t) = push_bit 3 3"
    by simp
  then have "bit (w OR 24) 3"
    by (simp only: bit_or_iff bit_push_bit_iff) (simp add: bit_simps)
  moreover have "(97 :: byte_t) = 1 + push_bit 5 3"
    by simp
  then have "\<not> bit (97 :: byte_t) 3"
    by (simp only: bit_simps) simp
  ultimately have unlock: "w OR 24 \<noteq> 97"
    by metis
  have c4: "count_list (trace (run en n (power_on m w))) (Write_WDTCSR 97) = 1"
    unfolding run by (simp add: zero) (simp add: tr unlock)
  have c5: "count_list (trace (run en n (power_on m w))) (TTN_personalize devAddr nwkSKey appSKey) = 1"
    unfolding run by (simp add: zero) (simp add: tr)
  from run free ntx have ex: "\<exists>cyc. trace (run en n (power_on m w)) = trace ?s @ cyc
         \<and> filter is_startup cyc = []
         \<and> length (filter is_transmission cyc) = n"
    by (intro exI [where x = ?cyc] conjI)
  from tr notx ex c1 c2 c3 c4 c5 show ?thesis
    by (intro conjI)
qed

end
